theory Spec2Isabelle
  imports Main
begin

section \<open>The Newport SMC100 controller driver (pyNewportController/NewportSMC100.py)\<close>

text \<open>
  The driver talks to motion controllers over one serial port. The model threads an explicit
  world through every call: the state of the serial port (owned by the transport, whose
  behaviour is a parameter), the port's read timeout, the trace of everything that happened
  on the wire and in \<open>sleep\<close>, the lock objects created so far and the class-level
  \<open>__stateLock__\<close>. A call that raises returns \<open>Inl\<close> of the exception; a call that
  never returns (a polling loop that goes on forever, an \<open>acquire\<close> of a lock that
  nobody will release) is \<open>None\<close>.

  Two methods of the driver repeat by calling themselves: \<open>SuperWrite\<close> after a write
  timeout and the getter of \<open>HomeIsHardwareDefined\<close> after a reply it does not know. Every
  such call takes one more frame of the interpreter's stack, and the interpreter raises
  \<open>RecursionError\<close> at the call that would exceed its recursion limit (1000 frames unless
  the program changes it, of which the callers already use some). The world has the number
  of such nested calls that are still allowed; a call that returns gives its frame back.
  A thread has a stack of its own.

  Python \<open>str\<close> and \<open>bytes\<close> are both modelled as \<open>string\<close>; a character above
  127 stands for a non-ASCII code point. Durations of \<open>sleep\<close> and the read timeout are
  in milliseconds.
\<close>

subsection \<open>Exceptions, values, events\<close>

datatype exn =
    SerialException           \<comment> \<open>pyserial: any failure of the port other than a write timeout\<close>
  | UnicodeEncodeError        \<comment> \<open>\<open>str.encode(encoding='ascii')\<close> on a non-ASCII character\<close>
  | ValueError                \<comment> \<open>\<open>float(s)\<close> or \<open>ControllerState(s)\<close> on a string they reject\<close>
  | IndexError                \<comment> \<open>\<open>err[0]\<close> on the empty string\<close>
  | AttributeError            \<comment> \<open>reading \<open>self._address\<close> when \<open>__init__\<close> never assigned it\<close>
  | RecursionError            \<comment> \<open>a call that the interpreter's recursion limit does not allow\<close>
  | PyException string        \<comment> \<open>\<open>raise Exception(msg)\<close>\<close>

text \<open>What \<open>Serial.write\<close> does with one call: it returns the number of bytes written,
  raises \<open>SerialTimeoutException\<close>, or raises another \<open>SerialException\<close>.\<close>

datatype wres = Written nat | WriteTimeout | WriteFailed

datatype event =
    EvWrite string wres       \<comment> \<open>one call of \<open>Serial.write\<close> with these bytes, and its outcome\<close>
  | EvRead string             \<comment> \<open>one call of \<open>Serial.readline\<close> and the bytes it returned\<close>
  | EvSleep nat               \<comment> \<open>\<open>sleep\<close>, in milliseconds\<close>
  | EvAcquire nat             \<comment> \<open>\<open>acquire\<close> of the lock object with this identity\<close>
  | EvRelease nat             \<comment> \<open>\<open>release\<close> of the lock object with this identity\<close>
  | EvThreadDied exn          \<comment> \<open>a \<open>Thread\<close> whose target raised; the exception stays in the thread\<close>
  | EvThreadDetached          \<comment> \<open>a \<open>Thread\<close> started and not joined; what it does is not in the trace\<close>

text \<open>The transport (pyserial's \<open>Serial\<close>) is external: its behaviour is a parameter.
  \<open>bytes_decode\<close> is \<open>bytes.decode(errors='replace')\<close>.\<close>

record 'd serial =
  ser_open :: "string \<Rightarrow> exn + 'd"
  ser_write :: "string \<Rightarrow> 'd \<Rightarrow> wres \<times> 'd"
  ser_readline :: "nat \<Rightarrow> 'd \<Rightarrow> (exn + string) \<times> 'd"
  bytes_decode :: "string \<Rightarrow> string"

record 'd world =
  port :: 'd                  \<comment> \<open>\<open>MainController.__serialPort__\<close>\<close>
  timeout :: nat              \<comment> \<open>\<open>__serialPort__.timeout\<close>\<close>
  trace :: "event list"
  nlocks :: nat               \<comment> \<open>number of \<open>Lock()\<close> objects constructed by \<open>SuperQuery\<close>\<close>
  stateLock :: bool           \<comment> \<open>\<open>MainController.__stateLock__\<close> is held\<close>
  frames :: nat               \<comment> \<open>nested calls of a function to itself that the interpreter still allows\<close>
  thread_frames :: nat        \<comment> \<open>the same, in a thread that has just started\<close>

type_synonym ('a, 'd) result = "((exn + 'a) \<times> 'd world) option"

definition log :: "event \<Rightarrow> 'd world \<Rightarrow> 'd world" where
  "log e w = w\<lparr>trace := trace w @ [e]\<rparr>"

definition sleep :: "nat \<Rightarrow> 'd world \<Rightarrow> 'd world" where
  "sleep ms w = log (EvSleep ms) w"

text \<open>Sequencing of a result with the rest of the computation: an exception and a call that
  never returns both propagate.\<close>

definition and_then :: "('a, 'd) result \<Rightarrow> ('a \<Rightarrow> 'd world \<Rightarrow> ('b, 'd) result) \<Rightarrow> ('b, 'd) result" where
  "and_then m f =
     Option.bind m (\<lambda>(r, w). (case r of Inl e \<Rightarrow> Some (Inl e, w) | Inr x \<Rightarrow> f x w))"

lemma and_then_mono [partial_function_mono]:
  assumes mf: "mono_option B" and mg: "\<And>y w. mono_option (\<lambda>f. C y w f)"
  shows "mono_option (\<lambda>f. and_then (B f) (\<lambda>y w. C y w f))"
  unfolding and_then_def
proof (rule bind_mono [OF mf])
  fix y :: "(exn + 'c) \<times> 'd world"
  obtain r w where y: "y = (r, w)" by (cases y)
  show "mono_option (\<lambda>f. (case y of (r, w) \<Rightarrow> (case r of Inl e \<Rightarrow> Some (Inl e, w) | Inr x \<Rightarrow> C x w f)))"
    unfolding y by (cases r) (simp_all add: mg option.const_mono)
qed

lemma and_then_simps [simp]:
  "and_then None f = None"
  "and_then (Some (Inl e, w)) f = Some (Inl e, w)"
  "and_then (Some (Inr x, w)) f = f x w"
  by (simp_all add: and_then_def)

text \<open>The state of the stack when a nested call has returned or raised: the frames are
  those of the caller again.\<close>

definition returning :: "nat \<Rightarrow> ('a, 'd) result \<Rightarrow> ('a, 'd) result" where
  "returning n m = map_option (\<lambda>(r, w). (r, w\<lparr>frames := n\<rparr>)) m"

lemma returning_mono [partial_function_mono]:
  assumes "mono_option B"
  shows "mono_option (\<lambda>f. returning n (B f))"
  unfolding returning_def map_conv_bind_option
  by (rule bind_mono [OF assms]) (rule option.const_mono)

lemma returning_simps [simp]:
  "returning n None = None"
  "returning n (Some (r, w)) = Some (r, w\<lparr>frames := n\<rparr>)"
  by (simp_all add: returning_def)

text \<open>The stack of a thread that starts.\<close>

definition started :: "'d world \<Rightarrow> 'd world" where
  "started w = w\<lparr>frames := thread_frames w\<rparr>"

subsection \<open>Strings\<close>

definition CRLF :: string where
  "CRLF = [CHR 0x0D, CHR 0x0A]"

text \<open>\<open>s.encode(encoding='ascii')\<close>.\<close>

definition is_ascii :: "string \<Rightarrow> bool" where
  "is_ascii s = list_all (\<lambda>c. (of_char c :: nat) < 128) s"

definition encode_ascii :: "string \<Rightarrow> exn + string" where
  "encode_ascii s = (if is_ascii s then Inr s else Inl UnicodeEncodeError)"

text \<open>\<open>str(n)\<close> for a Python \<open>int\<close>.\<close>

definition digit_char :: "nat \<Rightarrow> char" where
  "digit_char d = ''0123456789'' ! d"

fun str_nat :: "nat \<Rightarrow> string" where
  "str_nat n = (if n < 10 then [digit_char n] else str_nat (n div 10) @ [digit_char (n mod 10)])"

declare str_nat.simps [simp del]

definition str_int :: "int \<Rightarrow> string" where
  "str_int i = (if i < 0 then CHR ''-'' # str_nat (nat (- i)) else str_nat (nat i))"

text \<open>\<open>s[-2:]\<close>: the last two characters, or all of \<open>s\<close> when it is shorter.\<close>

definition last2 :: "string \<Rightarrow> string" where
  "last2 s = drop (length s - 2) s"

subsection \<open>MainController: the link\<close>

text \<open>
  \<^verbatim>\<open>
  def SuperWrite(self, value):
      try:
          return self.__serialPort__.write((value + '\r\n').encode(encoding='ascii'))
      except SerialTimeoutException:
          sleep(0.2)
          self.SuperWrite(value)
  \<close>
  The value returned is the byte count when the first attempt succeeds and \<open>None\<close> after a
  retry (the recursive call's value is dropped). The retry is a call of \<open>SuperWrite\<close>
  inside the handler: when no frame is left for it, the call raises \<open>RecursionError\<close>,
  which the handler of the enclosing calls does not catch.
\<close>

function SuperWrite :: "'d serial \<Rightarrow> string \<Rightarrow> 'd world \<Rightarrow> (nat option, 'd) result" where
  "SuperWrite S v w =
     (case encode_ascii (v @ CRLF) of
        Inl e \<Rightarrow> Some (Inl e, w)
      | Inr bytes \<Rightarrow>
          (case ser_write S bytes (port w) of
             (Written n, p) \<Rightarrow> Some (Inr (Some n), log (EvWrite bytes (Written n)) (w\<lparr>port := p\<rparr>))
           | (WriteFailed, p) \<Rightarrow> Some (Inl SerialException, log (EvWrite bytes WriteFailed) (w\<lparr>port := p\<rparr>))
           | (WriteTimeout, p) \<Rightarrow>
               if frames w = 0 then
                 Some (Inl RecursionError, sleep 200 (log (EvWrite bytes WriteTimeout) (w\<lparr>port := p\<rparr>)))
               else
                 returning (frames w)
                   (and_then
                      (SuperWrite S v
                         (sleep 200 (log (EvWrite bytes WriteTimeout) (w\<lparr>port := p, frames := frames w - 1\<rparr>))))
                      (\<lambda>_ w'. Some (Inr None, w')))))"
  by pat_completeness auto
termination
  by (relation "measure (\<lambda>(S, v, w). frames w)") (auto simp: sleep_def log_def)

declare SuperWrite.simps [simp del]

text \<open>
  \<^verbatim>\<open>
  def Read(self):
      str = self.__serialPort__.readline()
      str = str.replace(b'\r', b'')
      str = str.replace(b'\n', b'')
      return str
  \<close>
\<close>

definition strip_crlf :: "string \<Rightarrow> string" where
  "strip_crlf bs = filter (\<lambda>c. c \<noteq> CHR 0x0A) (filter (\<lambda>c. c \<noteq> CHR 0x0D) bs)"

definition Read :: "'d serial \<Rightarrow> 'd world \<Rightarrow> (string, 'd) result" where
  "Read S w =
     (case ser_readline S (timeout w) (port w) of
        (Inl e, p) \<Rightarrow> Some (Inl e, w\<lparr>port := p\<rparr>)
      | (Inr bs, p) \<Rightarrow> Some (Inr (strip_crlf bs), log (EvRead bs) (w\<lparr>port := p\<rparr>)))"

text \<open>Leaving a \<open>with lock:\<close> block releases the lock, on a normal exit and on an
  exception alike.\<close>

definition releasing :: "nat \<Rightarrow> ('a, 'd) result \<Rightarrow> ('a, 'd) result" where
  "releasing l m = map_option (\<lambda>(r, w). (r, log (EvRelease l) w)) m"

text \<open>
  \<^verbatim>\<open>
  def SuperQuery(self, value, check_error=False):
      with Lock():
          if check_error:
              self.raise_error()
          self.SuperWrite(value)
          if check_error:
              self.raise_error()
          return self.Read().decode(errors='replace')

  def read_error(self):
      return self.SuperQuery('TB')

  def raise_error(self):
      err = self.read_error()
      if err[0] != "0":
          raise Exception(err)
  \<close>
  \<open>Lock()\<close> constructs a new lock object at every call: its identity is the number of
  locks constructed before it. Acquiring a lock that was just constructed never blocks.
\<close>

function SuperQuery :: "'d serial \<Rightarrow> string \<Rightarrow> bool \<Rightarrow> 'd world \<Rightarrow> (string, 'd) result"
  and read_error :: "'d serial \<Rightarrow> 'd world \<Rightarrow> (string, 'd) result"
  and raise_error :: "'d serial \<Rightarrow> 'd world \<Rightarrow> (unit, 'd) result"
where
  "SuperQuery S v check_error w =
     (let l = nlocks w in
      releasing l
        (and_then (if check_error then raise_error S (log (EvAcquire l) (w\<lparr>nlocks := Suc l\<rparr>))
                   else Some (Inr (), log (EvAcquire l) (w\<lparr>nlocks := Suc l\<rparr>))) (\<lambda>_ w1.
         and_then (SuperWrite S v w1) (\<lambda>_ w2.
         and_then (if check_error then raise_error S w2 else Some (Inr (), w2)) (\<lambda>_ w3.
         and_then (Read S w3) (\<lambda>bs w4. Some (Inr (bytes_decode S bs), w4)))))))"
| "read_error S w = SuperQuery S ''TB'' False w"
| "raise_error S w =
     and_then (read_error S w) (\<lambda>err w1.
       (case err of
          [] \<Rightarrow> Some (Inl IndexError, w1)
        | c # _ \<Rightarrow> if c \<noteq> CHR ''0'' then Some (Inl (PyException err), w1) else Some (Inr (), w1)))"
  by pat_completeness auto
termination
  by (relation "measure (\<lambda>x. case x of
          Inl (S, v, ce, w) \<Rightarrow> (if ce then 3 else 0)
        | Inr (Inl (S, w)) \<Rightarrow> 1
        | Inr (Inr (S, w)) \<Rightarrow> 2)") auto

declare SuperQuery.simps [simp del] read_error.simps [simp del] raise_error.simps [simp del]

subsection \<open>ControllerState\<close>

datatype ControllerState =
  NotReferenced | Configuration | Homing | Moving | Ready | Disable | Jogging | Unknown

text \<open>The values of the \<open>MultiValueEnum\<close>, in the order of the class body.\<close>

definition ControllerState_values :: "(string \<times> ControllerState) list" where
  "ControllerState_values =
     [(''0A'', NotReferenced), (''0B'', NotReferenced), (''0C'', NotReferenced), (''0D'', NotReferenced),
      (''0E'', NotReferenced), (''0F'', NotReferenced), (''10'', NotReferenced), (''11'', NotReferenced),
      (''14'', Configuration),
      (''1E'', Homing), (''1F'', Homing),
      (''28'', Moving),
      (''32'', Ready), (''33'', Ready), (''34'', Ready), (''35'', Ready),
      (''3C'', Disable), (''3D'', Disable), (''3E'', Disable),
      (''46'', Jogging), (''47'', Jogging),
      (''Unknown'', Unknown)]"

text \<open>\<open>ControllerState(s)\<close>: the member that has the value \<open>s\<close>; \<open>ValueError\<close> when
  there is none.\<close>

definition ControllerState_of :: "string \<Rightarrow> exn + ControllerState" where
  "ControllerState_of s =
     (case map_of ControllerState_values s of Some st \<Rightarrow> Inr st | None \<Rightarrow> Inl ValueError)"

subsection \<open>Controller: one addressed device on the link\<close>

text \<open>The attribute \<open>_address\<close>: \<open>__init__\<close> assigns it only when the address is in
  \<open>ADDRESS_RANGE\<close>; otherwise the object has no such attribute.\<close>

datatype attr = Unset | PyNone | PyInt int

record controller =
  address :: attr             \<comment> \<open>\<open>self._address\<close>\<close>
  IsConnected :: bool

definition ADDRESS_RANGE :: "int list" where
  "ADDRESS_RANGE = [0..31]"

text \<open>
  \<^verbatim>\<open>
  def __init__(self, mainController, address=1):
      self._mainController = mainController
      if address in ADDRESS_RANGE:
          self._address = address
      ...
      self.IsConnected = False
  \<close>
  The argument is \<open>None\<close> or an \<open>int\<close>.
\<close>

definition Controller_init :: "int option \<Rightarrow> controller" where
  "Controller_init a =
     \<lparr>address = (case a of None \<Rightarrow> Unset | Some n \<Rightarrow> if n \<in> set ADDRESS_RANGE then PyInt n else Unset),
      IsConnected = False\<rparr>"

text \<open>\<open>(str(self._address) if self._address is not None else "")\<close>\<close>

definition address_prefix :: "controller \<Rightarrow> exn + string" where
  "address_prefix c =
     (case address c of Unset \<Rightarrow> Inl AttributeError | PyNone \<Rightarrow> Inr [] | PyInt n \<Rightarrow> Inr (str_int n))"

text \<open>
  \<^verbatim>\<open>
  def Write(self, string):
      self.MainController.SuperWrite((str(self._address) if self._address is not None else "") + string)

  def Query(self, string, check_error=False):
      query = (str(self._address) if self._address is not None else "") + string
      reply = self.MainController.SuperQuery(query + '?', check_error)
      return reply[len(query):]
  \<close>
\<close>

definition Write :: "'d serial \<Rightarrow> controller \<Rightarrow> string \<Rightarrow> 'd world \<Rightarrow> (unit, 'd) result" where
  "Write S c string w =
     (case address_prefix c of
        Inl e \<Rightarrow> Some (Inl e, w)
      | Inr pre \<Rightarrow> and_then (SuperWrite S (pre @ string) w) (\<lambda>_ w1. Some (Inr (), w1)))"

definition Query :: "'d serial \<Rightarrow> controller \<Rightarrow> string \<Rightarrow> bool \<Rightarrow> 'd world \<Rightarrow> (string, 'd) result" where
  "Query S c string check_error w =
     (case address_prefix c of
        Inl e \<Rightarrow> Some (Inl e, w)
      | Inr pre \<Rightarrow>
          (let query = pre @ string in
           and_then (SuperQuery S (query @ ''?'') check_error w) (\<lambda>reply w1.
             Some (Inr (drop (length query) reply), w1))))"

text \<open>
  \<^verbatim>\<open>
  def GetState(self) -> ControllerState:
      try:
          self.MainController.__stateLock__.acquire()
          state = self.Query('TS')[-2:]
          state = ControllerState(state)
          self.MainController.__stateLock__.release()
          return state
      except:
          return ControllerState.Unknown
  \<close>
  \<open>__stateLock__\<close> is one \<open>Lock\<close> of the class, not reentrant. \<open>release\<close> is called
  nowhere else, so an \<open>acquire\<close> that finds the lock held waits forever.
\<close>

definition GetState :: "'d serial \<Rightarrow> controller \<Rightarrow> 'd world \<Rightarrow> (ControllerState, 'd) result" where
  "GetState S c w =
     (if stateLock w then None
      else
        (case Query S c ''TS'' False (w\<lparr>stateLock := True\<rparr>) of
           None \<Rightarrow> None
         | Some (Inl e, w1) \<Rightarrow> Some (Inr Unknown, w1)
         | Some (Inr reply, w1) \<Rightarrow>
             (case ControllerState_of (last2 reply) of
                Inl e \<Rightarrow> Some (Inr Unknown, w1)
              | Inr state \<Rightarrow> Some (Inr state, w1\<lparr>stateLock := False\<rparr>))))"

text \<open>
  \<open>IsEnabled\<close>. The getter compares the reply, a \<open>str\<close>, with the \<open>int\<close> 1; in
  Python \<open>==\<close> between a \<open>str\<close> and an \<open>int\<close> is \<open>False\<close>.
  \<^verbatim>\<open>
  @property
  def IsEnabled(self) -> bool:
      return self.Query('MM') == 1
  @IsEnabled.setter
  def IsEnabled(self, value:bool):
      self.Write('MM' + str(int(bool(value))))
  \<close>
\<close>

datatype pyval = PyStr string | PyNum int

fun py_eq :: "pyval \<Rightarrow> pyval \<Rightarrow> bool" where
  "py_eq (PyStr a) (PyStr b) = (a = b)"
| "py_eq (PyNum a) (PyNum b) = (a = b)"
| "py_eq _ _ = False"

definition IsEnabled_get :: "'d serial \<Rightarrow> controller \<Rightarrow> 'd world \<Rightarrow> (bool, 'd) result" where
  "IsEnabled_get S c w =
     and_then (Query S c ''MM'' False w) (\<lambda>reply w1. Some (Inr (py_eq (PyStr reply) (PyNum 1)), w1))"

definition IsEnabled_set :: "'d serial \<Rightarrow> controller \<Rightarrow> bool \<Rightarrow> 'd world \<Rightarrow> (unit, 'd) result" where
  "IsEnabled_set S c v w = Write S c (''MM'' @ str_int (if v then 1 else 0)) w"

text \<open>
  \<^verbatim>\<open>
  def Stop(self):
      self.Write('ST')
  \<close>
\<close>

definition Stop :: "'d serial \<Rightarrow> controller \<Rightarrow> 'd world \<Rightarrow> (unit, 'd) result" where
  "Stop S c w = Write S c ''ST'' w"

text \<open>The loop \<open>while(self.State == ControllerState.Moving): sleep(0.1)\<close> of \<open>GoHome\<close>
  and \<open>GoTo\<close>.\<close>

partial_function (option) while_Moving :: "'d serial \<Rightarrow> controller \<Rightarrow> 'd world \<Rightarrow> (unit, 'd) result" where
  "while_Moving S c w =
     and_then (GetState S c w) (\<lambda>state w1.
       if state = Moving then while_Moving S c (sleep 100 w1) else Some (Inr (), w1))"

declare while_Moving.simps [code]

text \<open>
  \<^verbatim>\<open>
  def GoHome(self, wait=True):
      self.Write('OR')
      if wait:
          while(self.State == ControllerState.Moving):
              sleep(0.1)
  \<close>
\<close>

definition GoHome :: "'d serial \<Rightarrow> controller \<Rightarrow> bool \<Rightarrow> 'd world \<Rightarrow> (unit, 'd) result" where
  "GoHome S c wait w =
     and_then (Write S c ''OR'' w) (\<lambda>_ w1. if wait then while_Moving S c w1 else Some (Inr (), w1))"

text \<open>
  Positions are Python floats. \<open>float(s)\<close>, \<open>\<le>\<close> on floats and \<open>str(x)\<close> are the
  interpreter's: they are parameters (\<open>float_of s = None\<close> is \<open>ValueError\<close>).
  \<^verbatim>\<open>
  @property
  def Position(self):
      return float(self.Query('TP'))
  @Position.setter
  def Position(self, value):
      if self.MinPosition <= value <= self.MaxPosition:
          self.Write('PA' + str(float(value)))
      else:
          raise Exception('Position cannot be reached')

  @property
  def MinPosition(self) -> float:
      return float(self.Query('SL'))

  @property
  def MaxPosition(self) -> float:
      return float(self.Query('SR'))
  \<close>
  The chained comparison reads \<open>MaxPosition\<close> only when \<open>MinPosition <= value\<close> holds.
\<close>

record 'f pyfloat =
  float_of :: "string \<Rightarrow> 'f option"
  float_le :: "'f \<Rightarrow> 'f \<Rightarrow> bool"
  float_str :: "'f \<Rightarrow> string"

definition query_float :: "'f pyfloat \<Rightarrow> 'd serial \<Rightarrow> controller \<Rightarrow> string \<Rightarrow> 'd world \<Rightarrow> ('f, 'd) result" where
  "query_float F S c name w =
     and_then (Query S c name False w) (\<lambda>reply w1.
       (case float_of F reply of None \<Rightarrow> Some (Inl ValueError, w1) | Some x \<Rightarrow> Some (Inr x, w1)))"

definition Position_get :: "'f pyfloat \<Rightarrow> 'd serial \<Rightarrow> controller \<Rightarrow> 'd world \<Rightarrow> ('f, 'd) result" where
  "Position_get F S c w = query_float F S c ''TP'' w"

definition MinPosition :: "'f pyfloat \<Rightarrow> 'd serial \<Rightarrow> controller \<Rightarrow> 'd world \<Rightarrow> ('f, 'd) result" where
  "MinPosition F S c w = query_float F S c ''SL'' w"

definition MaxPosition :: "'f pyfloat \<Rightarrow> 'd serial \<Rightarrow> controller \<Rightarrow> 'd world \<Rightarrow> ('f, 'd) result" where
  "MaxPosition F S c w = query_float F S c ''SR'' w"

definition Position_set :: "'f pyfloat \<Rightarrow> 'd serial \<Rightarrow> controller \<Rightarrow> 'f \<Rightarrow> 'd world \<Rightarrow> (unit, 'd) result" where
  "Position_set F S c v w =
     and_then (MinPosition F S c w) (\<lambda>lo w1.
       if float_le F lo v then
         and_then (MaxPosition F S c w1) (\<lambda>hi w2.
           if float_le F v hi then Write S c (''PA'' @ float_str F v) w2
           else Some (Inl (PyException ''Position cannot be reached''), w2))
       else Some (Inl (PyException ''Position cannot be reached''), w1))"

text \<open>
  \<^verbatim>\<open>
  def GoTo(self, position, wait=True):
      self.Position = position
      if wait:
          while(self.State == ControllerState.Moving):
              sleep(0.1)
  \<close>
\<close>

definition GoTo :: "'f pyfloat \<Rightarrow> 'd serial \<Rightarrow> controller \<Rightarrow> 'f \<Rightarrow> bool \<Rightarrow> 'd world \<Rightarrow> (unit, 'd) result" where
  "GoTo F S c position wait w =
     and_then (Position_set F S c position w) (\<lambda>_ w1.
       if wait then while_Moving S c w1 else Some (Inr (), w1))"

text \<open>
  \<^verbatim>\<open>
  def Reset(self):
      savedTimeout = self.MainController.__serialPort__.timeout
      self.MainController.__serialPort__.timeout = 0.1
      self.Write('RS')
      sleep(0.5)
      while self.State is not ControllerState.NotReferenced:
          sleep(0.1)
      self.MainController.__serialPort__.timeout = savedTimeout
  \<close>
\<close>

partial_function (option) Reset_loop :: "'d serial \<Rightarrow> controller \<Rightarrow> 'd world \<Rightarrow> (unit, 'd) result" where
  "Reset_loop S c w =
     and_then (GetState S c w) (\<lambda>state w1.
       if state \<noteq> NotReferenced then Reset_loop S c (sleep 100 w1) else Some (Inr (), w1))"

declare Reset_loop.simps [code]

definition Reset :: "'d serial \<Rightarrow> controller \<Rightarrow> 'd world \<Rightarrow> (unit, 'd) result" where
  "Reset S c w =
     (let savedTimeout = timeout w in
      and_then (Write S c ''RS'' (w\<lparr>timeout := 100\<rparr>)) (\<lambda>_ w1.
      and_then (Reset_loop S c (sleep 500 w1)) (\<lambda>_ w2.
        Some (Inr (), w2\<lparr>timeout := savedTimeout\<rparr>))))"

subsection \<open>Driving the controller to a state\<close>

text \<open>
  \<open>Thread(target=f).start()\<close> followed by \<open>join()\<close> runs \<open>f\<close> to its end before the
  caller goes on. An exception raised by \<open>f\<close> ends the thread and is not raised in the
  caller: \<open>join\<close> returns normally. The thread runs on its own stack (\<open>started\<close>), and
  the caller goes on with the frames it had (\<open>returning\<close>).
\<close>

definition joined :: "('a, 'd) result \<Rightarrow> (unit, 'd) result" where
  "joined m =
     Option.bind m (\<lambda>(r, w). (case r of Inl e \<Rightarrow> Some (Inr (), log (EvThreadDied e) w) | Inr _ \<Rightarrow> Some (Inr (), w)))"

lemma joined_mono [partial_function_mono]:
  assumes "mono_option B"
  shows "mono_option (\<lambda>f. joined (B f))"
  unfolding joined_def
  by (rule bind_mono [OF assms]) (rule option.const_mono)

lemma joined_simps [simp]:
  "joined None = None"
  "joined (Some (Inl e, w)) = Some (Inr (), log (EvThreadDied e) w)"
  "joined (Some (Inr x, w)) = Some (Inr (), w)"
  by (simp_all add: joined_def)

text \<open>The loop \<open>while self.State == ControllerState.Unknown: sleep(0.1)\<close> that opens
  \<open>__setState__\<close>.\<close>

partial_function (option) while_Unknown :: "'d serial \<Rightarrow> controller \<Rightarrow> 'd world \<Rightarrow> (unit, 'd) result" where
  "while_Unknown S c w =
     and_then (GetState S c w) (\<lambda>state w1.
       if state = Unknown then while_Unknown S c (sleep 100 w1) else Some (Inr (), w1))"

declare while_Unknown.simps [code]

text \<open>The condition
  \<open>(self.State == Jogging) or (self.State == Moving) or (self.State == Homing)\<close>: every
  \<open>self.State\<close> is one more status query, and \<open>or\<close> stops at the first that holds.\<close>

definition is_transient :: "'d serial \<Rightarrow> controller \<Rightarrow> 'd world \<Rightarrow> (bool, 'd) result" where
  "is_transient S c w =
     and_then (GetState S c w) (\<lambda>s1 w1.
       if s1 = Jogging then Some (Inr True, w1)
       else and_then (GetState S c w1) (\<lambda>s2 w2.
         if s2 = Moving then Some (Inr True, w2)
         else and_then (GetState S c w2) (\<lambda>s3 w3. Some (Inr (s3 = Homing), w3))))"

text \<open>
  \<open>__setState__\<close>, the target of the thread that \<open>SetState\<close> starts. An assignment
  \<open>self.State = v\<close> inside it is \<open>SetState(v)\<close> with \<open>wait=True\<close>: a nested thread,
  joined.
  \<^verbatim>\<open>
  def __setState__(self, value:ControllerState):
      while self.State == ControllerState.Unknown:
          sleep(0.1)

      match ControllerState(value):
          case ControllerState.NotReferenced:
              self.Reset()

          case ControllerState.Configuration:
              self.State = ControllerState.NotReferenced
              self.Write('PW1')

          case ControllerState.Ready:
              if self.State == ControllerState.Configuration:
                  self.Write('PW0')
              if self.State == ControllerState.NotReferenced:
                  self.GoHome()
              if self.State == ControllerState.Disable:
                  self.Write('MM1')
              if (self.State == ControllerState.Jogging) or (self.State == ControllerState.Moving) or (self.State == ControllerState.Homing):
                  sleep(0.3)

          case ControllerState.Disable:
              self.Write('MM0')

      if self.State != value:
          self.State = value
  \<close>
\<close>

partial_function (option) setState :: "'d serial \<Rightarrow> controller \<Rightarrow> ControllerState \<Rightarrow> 'd world \<Rightarrow> (unit, 'd) result" where
  "setState S c v w =
     and_then (while_Unknown S c w) (\<lambda>_ w1.
     and_then
       (case v of
          NotReferenced \<Rightarrow> Reset S c w1
        | Configuration \<Rightarrow>
            and_then (returning (frames w1) (joined (setState S c NotReferenced (started w1))))
              (\<lambda>_ w2. Write S c ''PW1'' w2)
        | Ready \<Rightarrow>
            and_then (GetState S c w1) (\<lambda>s1 w2.
            and_then (if s1 = Configuration then Write S c ''PW0'' w2 else Some (Inr (), w2)) (\<lambda>_ w3.
            and_then (GetState S c w3) (\<lambda>s2 w4.
            and_then (if s2 = NotReferenced then GoHome S c True w4 else Some (Inr (), w4)) (\<lambda>_ w5.
            and_then (GetState S c w5) (\<lambda>s3 w6.
            and_then (if s3 = Disable then Write S c ''MM1'' w6 else Some (Inr (), w6)) (\<lambda>_ w7.
            and_then (is_transient S c w7) (\<lambda>t w8.
              Some (Inr (), if t then sleep 300 w8 else w8))))))))
        | Disable \<Rightarrow> Write S c ''MM0'' w1
        | _ \<Rightarrow> Some (Inr (), w1)) (\<lambda>_ w9.
     and_then (GetState S c w9) (\<lambda>s w10.
       if s \<noteq> v then returning (frames w10) (joined (setState S c v (started w10)))
       else Some (Inr (), w10))))"

declare setState.simps [code]

text \<open>
  \<^verbatim>\<open>
  def SetState(self, value:ControllerState, wait: bool= True):
      thread = Thread(target=self.__setState__, args=[value])
      thread.start()
      if wait:
          thread.join()
  State = property(GetState, SetState)
  \<close>
  Without \<open>wait\<close> the caller goes on at once and the thread runs beside it; the model
  records that it was started and leaves out what it does.
\<close>

definition SetState :: "'d serial \<Rightarrow> controller \<Rightarrow> ControllerState \<Rightarrow> bool \<Rightarrow> 'd world \<Rightarrow> (unit, 'd) result" where
  "SetState S c v wait w =
     (if wait then returning (frames w) (joined (setState S c v (started w)))
      else Some (Inr (), log EvThreadDetached w))"

text \<open>
  \<^verbatim>\<open>
  @property
  def HomeIsHardwareDefined(self) -> bool:
      match self.Query('HT'):
          case '1': return False
          case '2': return True
          case _:
              sleep(0.1)
              return self.HomeIsHardwareDefined
  @HomeIsHardwareDefined.setter
  def HomeIsHardwareDefined(self, value:bool):
      value = bool(value)
      if value != self.HomeIsHardwareDefined:
          self.State = ControllerState.Configuration
          self.Write('HT' + ('2' if value else '1'))
  \<close>
  The getter polls by calling itself: when no frame is left for the call, it raises
  \<open>RecursionError\<close>. The query has returned by then and left the frames as they were.
\<close>

function HomeIsHardwareDefined_get :: "'d serial \<Rightarrow> controller \<Rightarrow> 'd world \<Rightarrow> (bool, 'd) result" where
  "HomeIsHardwareDefined_get S c w =
     and_then (Query S c ''HT'' False w) (\<lambda>reply w1.
       if reply = ''1'' then Some (Inr False, w1)
       else if reply = ''2'' then Some (Inr True, w1)
       else if frames w = 0 then Some (Inl RecursionError, sleep 100 w1)
       else returning (frames w)
              (HomeIsHardwareDefined_get S c (sleep 100 (w1\<lparr>frames := frames w - 1\<rparr>))))"
  by pat_completeness auto
termination
  by (relation "measure (\<lambda>(S, c, w). frames w)") (auto simp: sleep_def log_def)

declare HomeIsHardwareDefined_get.simps [simp del]

definition HomeIsHardwareDefined_set :: "'d serial \<Rightarrow> controller \<Rightarrow> bool \<Rightarrow> 'd world \<Rightarrow> (unit, 'd) result" where
  "HomeIsHardwareDefined_set S c v w =
     and_then (HomeIsHardwareDefined_get S c w) (\<lambda>cur w1.
       if v \<noteq> cur then
         and_then (SetState S c Configuration True w1) (\<lambda>_ w2.
           Write S c (''HT'' @ (if v then ''2'' else ''1'')) w2)
       else Some (Inr (), w1))"

subsection \<open>Connecting\<close>

text \<open>
  \<^verbatim>\<open>
  def Connect(self, homeIsHardwareDefined:bool=True, wait:bool=True):
      self.IsConnected = True
      try:
          self.HomeIsHardwareDefined = homeIsHardwareDefined
          self.SetState(ControllerState.Ready, wait=wait)
          return True
      except Exception as e:
          self.IsConnected = False

  def Disconnect(self):
      self.IsConnected = False
  \<close>
  \<open>Connect\<close> returns \<open>True\<close>, or \<open>None\<close> from the handler; it raises nothing. The
  result is the value returned and the controller object as the call leaves it.
\<close>

definition Connect :: "'d serial \<Rightarrow> controller \<Rightarrow> bool \<Rightarrow> bool \<Rightarrow> 'd world \<Rightarrow> (bool option \<times> controller, 'd) result" where
  "Connect S c homeIsHardwareDefined wait w =
     (let c1 = c\<lparr>IsConnected := True\<rparr> in
      (case and_then (HomeIsHardwareDefined_set S c1 homeIsHardwareDefined w) (\<lambda>_ w1.
              SetState S c1 Ready wait w1) of
         None \<Rightarrow> None
       | Some (Inl e, w2) \<Rightarrow> Some (Inr (None, c1\<lparr>IsConnected := False\<rparr>), w2)
       | Some (Inr _, w2) \<Rightarrow> Some (Inr (Some True, c1), w2)))"

definition Disconnect :: "controller \<Rightarrow> controller" where
  "Disconnect c = c\<lparr>IsConnected := False\<rparr>"

text \<open>
  \<^verbatim>\<open>
  def Connect(self, port, homeIsHardwareDefined:bool=True, wait:bool=True):
      if not self.IsConnected:
          self.__serialPort__ = Serial(port=port, baudrate=56700, timeout=1)
          self.__serialPort__.setDTR(False)
          super().Connect(homeIsHardwareDefined=homeIsHardwareDefined, wait=wait)
  \<close>
  \<open>MainController.Connect\<close> opens the port, which may raise, and drops the value that
  \<open>Controller.Connect\<close> returns.
\<close>

definition MainController_Connect ::
    "'d serial \<Rightarrow> controller \<Rightarrow> string \<Rightarrow> bool \<Rightarrow> bool \<Rightarrow> 'd world \<Rightarrow> (controller, 'd) result" where
  "MainController_Connect S c portname homeIsHardwareDefined wait w =
     (if \<not> IsConnected c then
        (case ser_open S portname of
           Inl e \<Rightarrow> Some (Inl e, w)
         | Inr p \<Rightarrow>
             and_then (Connect S c homeIsHardwareDefined wait (w\<lparr>port := p, timeout := 1000\<rparr>))
               (\<lambda>(ret, c1) w1. Some (Inr c1, w1)))
      else Some (Inr c, w))"

subsection \<open>Reading the trace\<close>

fun is_write :: "event \<Rightarrow> bool" where
  "is_write (EvWrite bytes r) = True"
| "is_write _ = False"

text \<open>The number of calls of \<open>Serial.write\<close>, and the bytes they were given, in order.\<close>

definition write_attempts :: "event list \<Rightarrow> nat" where
  "write_attempts t = length (filter is_write t)"

fun written :: "event list \<Rightarrow> string list" where
  "written [] = []"
| "written (EvWrite bytes r # t) = bytes # written t"
| "written (e # t) = written t"

text \<open>The lines read from the port, in order.\<close>

fun lines_read :: "event list \<Rightarrow> string list" where
  "lines_read [] = []"
| "lines_read (EvRead bytes # t) = bytes # lines_read t"
| "lines_read (e # t) = lines_read t"

text \<open>A port that answers the next \<open>n\<close> calls of \<open>write\<close> with these bytes by a timeout
  and the one after them by success.\<close>

fun times_out_then_succeeds :: "'d serial \<Rightarrow> string \<Rightarrow> nat \<Rightarrow> 'd \<Rightarrow> bool" where
  "times_out_then_succeeds S bytes 0 p =
     (case fst (ser_write S bytes p) of Written k \<Rightarrow> True | WriteTimeout \<Rightarrow> False | WriteFailed \<Rightarrow> False)"
| "times_out_then_succeeds S bytes (Suc n) p =
     (fst (ser_write S bytes p) = WriteTimeout \<and> times_out_then_succeeds S bytes n (snd (ser_write S bytes p)))"

text \<open>A port that answers the next \<open>n\<close> calls of \<open>write\<close> with these bytes by a
  timeout, whatever it does after them.\<close>

fun times_out :: "'d serial \<Rightarrow> string \<Rightarrow> nat \<Rightarrow> 'd \<Rightarrow> bool" where
  "times_out S bytes 0 p = True"
| "times_out S bytes (Suc n) p =
     (fst (ser_write S bytes p) = WriteTimeout \<and> times_out S bytes n (snd (ser_write S bytes p)))"

subsection \<open>The status table as the specification words it\<close>

text \<open>
  The specification gives the table by ranges of two-digit hexadecimal codes:
  NotReferenced 0A to 11, Configuration 14, Homing 1E and 1F, Moving 28, Ready 32 to 35,
  Disable 3C to 3E, Jogging 46 and 47, and Unknown for everything else. The digits are the
  upper-case ones the controller sends.
\<close>

definition hex_digit :: "char \<Rightarrow> nat option" where
  "hex_digit ch =
     map_of [(CHR ''0'', 0), (CHR ''1'', 1), (CHR ''2'', 2), (CHR ''3'', 3), (CHR ''4'', 4),
             (CHR ''5'', 5), (CHR ''6'', 6), (CHR ''7'', 7), (CHR ''8'', 8), (CHR ''9'', 9),
             (CHR ''A'', 10), (CHR ''B'', 11), (CHR ''C'', 12), (CHR ''D'', 13), (CHR ''E'', 14),
             (CHR ''F'', 15)] ch"

definition state_of_number :: "nat \<Rightarrow> ControllerState" where
  "state_of_number n =
     (if 0x0A \<le> n \<and> n \<le> 0x11 then NotReferenced
      else if n = 0x14 then Configuration
      else if n = 0x1E \<or> n = 0x1F then Homing
      else if n = 0x28 then Moving
      else if 0x32 \<le> n \<and> n \<le> 0x35 then Ready
      else if 0x3C \<le> n \<and> n \<le> 0x3E then Disable
      else if n = 0x46 \<or> n = 0x47 then Jogging
      else Unknown)"

definition documented_state :: "string \<Rightarrow> ControllerState" where
  "documented_state code =
     (case code of
        [a, b] \<Rightarrow>
          (case hex_digit a of
             None \<Rightarrow> Unknown
           | Some x \<Rightarrow> (case hex_digit b of None \<Rightarrow> Unknown | Some y \<Rightarrow> state_of_number (16 * x + y)))
      | _ \<Rightarrow> Unknown)"

subsection \<open>A simulated controller on the port\<close>

text \<open>
  A stand-in for the transport with a controller at address 1 behind it, for the concrete
  runs. It answers \<open>1TS?\<close> with its status code, goes from a Disable code to Ready (34)
  on \<open>1MM1\<close>, and answers the lines listed in \<open>answers\<close> with the reply listed. The
  next \<open>stalls\<close> writes time out, and writing a line listed in \<open>broken\<close> fails with
  \<open>SerialException\<close>. Reading with nothing to read returns no bytes (the read timeout).
  It sends ASCII only, which \<open>decode\<close> leaves as it is.
\<close>

record mock =
  status :: string
  answers :: "(string \<times> string) list"
  outbox :: "string list"
  stalls :: nat
  broken :: "string list"

definition mock_write :: "string \<Rightarrow> mock \<Rightarrow> wres \<times> mock" where
  "mock_write bytes d =
     (if 0 < stalls d then (WriteTimeout, d\<lparr>stalls := stalls d - 1\<rparr>)
      else if bytes \<in> set (broken d) then (WriteFailed, d)
      else (Written (length bytes),
            (if bytes = ''1TS?'' @ CRLF then d\<lparr>outbox := outbox d @ [''1TS0000'' @ status d @ CRLF]\<rparr>
             else if bytes = ''1MM1'' @ CRLF \<and> status d \<in> {''3C'', ''3D'', ''3E''} then d\<lparr>status := ''34''\<rparr>
             else (case map_of (answers d) bytes of
                     Some r \<Rightarrow> d\<lparr>outbox := outbox d @ [r]\<rparr>
                   | None \<Rightarrow> d))))"

definition mock_readline :: "nat \<Rightarrow> mock \<Rightarrow> (exn + string) \<times> mock" where
  "mock_readline t d = (case outbox d of [] \<Rightarrow> (Inr [], d) | r # rs \<Rightarrow> (Inr r, d\<lparr>outbox := rs\<rparr>))"

definition simulator :: "mock serial" where
  "simulator = \<lparr>ser_open = (\<lambda>name. Inl SerialException), ser_write = mock_write,
                 ser_readline = mock_readline, bytes_decode = (\<lambda>bs. bs)\<rparr>"

definition device :: "string \<Rightarrow> (string \<times> string) list \<Rightarrow> mock" where
  "device st ans = \<lparr>status = st, answers = ans, outbox = [], stalls = 0, broken = []\<rparr>"

text \<open>The world at the start of a run: nothing has happened, no lock is held, and there is
  room for 993 nested calls, as in a call made from the top of a program under the
  interpreter's own limit of 1000 frames.\<close>

definition world0 :: "mock \<Rightarrow> mock world" where
  "world0 d = \<lparr>port = d, timeout = 1000, trace = [], nlocks = 0, stateLock = False, frames = 993, thread_frames = 993\<rparr>"

text \<open>A stand-in for Python's floats in the concrete runs: whole numbers, written in decimal
  with an optional minus sign.\<close>

definition digit_value :: "char \<Rightarrow> nat option" where
  "digit_value ch = (case hex_digit ch of Some n \<Rightarrow> if n < 10 then Some n else None | None \<Rightarrow> None)"

fun nat_of_digits :: "nat \<Rightarrow> string \<Rightarrow> nat option" where
  "nat_of_digits acc [] = Some acc"
| "nat_of_digits acc (ch # s) =
     (case digit_value ch of None \<Rightarrow> None | Some n \<Rightarrow> nat_of_digits (10 * acc + n) s)"

definition whole_of :: "string \<Rightarrow> int option" where
  "whole_of s =
     (case s of
        [] \<Rightarrow> None
      | ch # r \<Rightarrow>
          if ch = CHR ''-'' then (if r = [] then None else map_option (\<lambda>n. - int n) (nat_of_digits 0 r))
          else map_option int (nat_of_digits 0 s))"

definition whole_numbers :: "int pyfloat" where
  "whole_numbers = \<lparr>float_of = whole_of, float_le = (\<le>), float_str = (\<lambda>i. str_int i @ ''.0'')\<rparr>"

text \<open>The simulated controller with its next \<open>n\<close> writes timing out.\<close>

definition stalled :: "nat \<Rightarrow> mock" where
  "stalled n = (device ''32'' [])\<lparr>stalls := n\<rparr>"

text \<open>The upper-case hexadecimal digits.\<close>

definition hex_chars :: string where
  "hex_chars = ''0123456789ABCDEF''"

text \<open>The events of the trace that are about threads and locks.\<close>

fun is_died :: "event \<Rightarrow> bool" where
  "is_died (EvThreadDied e) = True"
| "is_died _ = False"

fun is_lock :: "event \<Rightarrow> bool" where
  "is_lock (EvAcquire l) = True"
| "is_lock (EvRelease l) = True"
| "is_lock _ = False"

text \<open>The simulated controllers of the concrete runs. One reports its travel limits as -5
  and 5. One reports its motor as on. One answers the error query in the documented form,
  address, \<open>TB\<close>, code, description, with the code 0 of no error. One reports that its home
  is defined by hardware, is in state Disable, and has a port that fails when \<open>1MM1\<close> is
  written. One is in state Disable and has a port that fails when \<open>1TS?\<close> is written.\<close>

definition with_limits :: mock where
  "with_limits = device ''32'' [(''1SL?'' @ CRLF, ''1SL-5'' @ CRLF), (''1SR?'' @ CRLF, ''1SR5'' @ CRLF)]"

definition motor_on :: mock where
  "motor_on = device ''32'' [(''1MM?'' @ CRLF, ''1MM1'' @ CRLF)]"

definition no_error :: mock where
  "no_error = device ''32'' [(''TB'' @ CRLF, ''1TB0 No error'' @ CRLF)]"

definition unreadable :: mock where
  "unreadable = (device ''3C'' [])\<lparr>broken := [''1TS?'' @ CRLF]\<rparr>"

definition failing_enable :: mock where
  "failing_enable = (device ''3C'' [(''1HT?'' @ CRLF, ''1HT2'' @ CRLF)])\<lparr>broken := [''1MM1'' @ CRLF]\<rparr>"

subsection \<open>Two threads on the link\<close>

text \<open>
  \<open>SetState\<close> runs \<open>__setState__\<close> in a thread of its own, so two calls of \<open>SuperQuery\<close>
  can be under way at once. For that, \<open>SuperQuery(value)\<close> without the error check is
  taken statement by statement: \<open>Lock()\<close> constructs a lock, \<open>with\<close> acquires it, the line
  is written, a line is read, and leaving \<open>with\<close> releases the lock. A thread keeps the
  steps it still has to make and the lock object its \<open>with\<close> statement holds a reference
  to. The link has the number of lock objects constructed so far, the locks held, and
  the writes and reads on the port in the order they happened, each with the thread
  that made it.
\<close>

datatype action = NewLock | Acquire | Send string | Receive | Release

definition SuperQuery_steps :: "string \<Rightarrow> action list" where
  "SuperQuery_steps v = [NewLock, Acquire, Send (v @ CRLF), Receive, Release]"

record thread =
  todo :: "action list"
  lock :: "nat option"

record link =
  threads :: "thread list"
  created :: nat
  held :: "nat list"
  wire :: "(nat \<times> action) list"

text \<open>One step of thread \<open>i\<close>. \<open>acquire\<close> of a lock that is held does not go on: the
  thread stays where it is.\<close>

definition thread_step :: "nat \<Rightarrow> link \<Rightarrow> link" where
  "thread_step i b =
     (if i < length (threads b) then
        (let t = threads b ! i in
         (case todo t of
            [] \<Rightarrow> b
          | a # rest \<Rightarrow>
              (case a of
                 NewLock \<Rightarrow>
                   b\<lparr>threads := (threads b)[i := t\<lparr>todo := rest, lock := Some (created b)\<rparr>],
                     created := Suc (created b)\<rparr>
               | Acquire \<Rightarrow>
                   (case lock t of
                      None \<Rightarrow> b
                    | Some l \<Rightarrow>
                        if l \<in> set (held b) then b
                        else b\<lparr>threads := (threads b)[i := t\<lparr>todo := rest\<rparr>], held := l # held b\<rparr>)
               | Send bytes \<Rightarrow>
                   b\<lparr>threads := (threads b)[i := t\<lparr>todo := rest\<rparr>], wire := wire b @ [(i, a)]\<rparr>
               | Receive \<Rightarrow>
                   b\<lparr>threads := (threads b)[i := t\<lparr>todo := rest\<rparr>], wire := wire b @ [(i, a)]\<rparr>
               | Release \<Rightarrow>
                   (case lock t of
                      None \<Rightarrow> b
                    | Some l \<Rightarrow>
                        b\<lparr>threads := (threads b)[i := t\<lparr>todo := rest\<rparr>], held := removeAll l (held b)\<rparr>))))
      else b)"

text \<open>A schedule is the order in which the threads get to make a step.\<close>

definition scheduled :: "nat list \<Rightarrow> link \<Rightarrow> link" where
  "scheduled sched b = foldl (\<lambda>b i. thread_step i b) b sched"

text \<open>Two threads, each about to make one query; no lock exists yet.\<close>

definition two_queries :: link where
  "two_queries =
     \<lparr>threads = [\<lparr>todo = SuperQuery_steps ''1TS?'', lock = None\<rparr>,
                 \<lparr>todo = SuperQuery_steps ''2TS?'', lock = None\<rparr>],
      created = 0, held = [], wire = []\<rparr>"

text \<open>For comparison, the link as the specification designs it: one lock, made with the
  link and acquired by every transaction. The code has no such lock. The steps of a
  transaction are those of \<open>SuperQuery\<close> without the construction of a lock, and every
  thread refers to lock 0.\<close>

definition spec_Transact_steps :: "string \<Rightarrow> action list" where
  "spec_Transact_steps v = [Acquire, Send (v @ CRLF), Receive, Release]"

definition spec_two_transactions :: link where
  "spec_two_transactions =
     \<lparr>threads = [\<lparr>todo = spec_Transact_steps ''1TS?'', lock = Some 0\<rparr>,
                 \<lparr>todo = spec_Transact_steps ''2TS?'', lock = Some 0\<rparr>],
      created = 1, held = [], wire = []\<rparr>"

section \<open>Properties\<close>

subsection \<open>Evaluation and strings\<close>

text \<open>With this congruence rule the simplifier runs a computation in the order of the
  program: it works on the first action and enters the rest only with its result.\<close>

lemma and_then_weak_cong: "m = m' \<Longrightarrow> and_then m f = and_then m' f"
  by simp

lemmas sim_defs = simulator_def mock_write_def mock_readline_def device_def world0_def
  CRLF_def is_ascii_def encode_ascii_def log_def sleep_def strip_crlf_def last2_def
  Controller_init_def ADDRESS_RANGE_def address_prefix_def str_int_def str_nat.simps digit_char_def
  ControllerState_of_def ControllerState_values_def releasing_def Read_def started_def

lemma is_ascii_append: "is_ascii (a @ b) = (is_ascii a \<and> is_ascii b)"
  by (simp add: is_ascii_def)

lemma is_ascii_CRLF: "is_ascii CRLF"
  by (simp add: is_ascii_def CRLF_def)

lemma encode_ascii_line: "is_ascii v \<Longrightarrow> encode_ascii (v @ CRLF) = Inr (v @ CRLF)"
  by (simp add: encode_ascii_def is_ascii_append is_ascii_CRLF)

lemma write_attempts_append: "write_attempts (a @ b) = write_attempts a + write_attempts b"
  by (simp add: write_attempts_def)

lemma write_attempts_retries:
  "write_attempts (concat (replicate n [EvWrite bytes WriteTimeout, EvSleep ms])) = n"
  by (induction n) (simp_all add: write_attempts_def)

lemma SuperWrite_retry_trace:
  assumes "is_ascii v" and "times_out_then_succeeds S (v @ CRLF) n (port w)" and "n \<le> frames w"
  shows "\<exists>r k w'. SuperWrite S v w = Some (Inr r, w') \<and> frames w' = frames w \<and>
           trace w' = trace w @ concat (replicate n [EvWrite (v @ CRLF) WriteTimeout, EvSleep 200])
                        @ [EvWrite (v @ CRLF) (Written k)]"
  using assms(2,3)
proof (induction n arbitrary: w)
  case 0
  then show ?case
    by (subst SuperWrite.simps)
       (auto simp: encode_ascii_line [OF assms(1)] log_def split: wres.splits prod.splits)
next
  case (Suc n)
  let ?bytes = "v @ CRLF"
  let ?p = "snd (ser_write S ?bytes (port w))"
  let ?w1 = "sleep 200 (log (EvWrite ?bytes WriteTimeout) (w\<lparr>port := ?p, frames := frames w - 1\<rparr>))"
  from Suc.prems have to: "fst (ser_write S ?bytes (port w)) = WriteTimeout"
    and rest: "times_out_then_succeeds S ?bytes n (port ?w1)"
    and room: "n \<le> frames ?w1" and pos: "frames w \<noteq> 0"
    by (simp_all add: sleep_def log_def)
  from Suc.IH [OF rest room] obtain r k w' where
    run: "SuperWrite S v ?w1 = Some (Inr r, w')" and
    tr: "trace w' = trace ?w1 @ concat (replicate n [EvWrite ?bytes WriteTimeout, EvSleep 200]) @ [EvWrite ?bytes (Written k)]"
    by blast
  have "SuperWrite S v w = Some (Inr None, w'\<lparr>frames := frames w\<rparr>)"
    using to run pos
    by (subst SuperWrite.simps) (auto simp: encode_ascii_line [OF assms(1)] split: prod.splits)
  moreover have "trace (w'\<lparr>frames := frames w\<rparr>) =
      trace w @ concat (replicate (Suc n) [EvWrite ?bytes WriteTimeout, EvSleep 200]) @ [EvWrite ?bytes (Written k)]"
    using tr by (simp add: sleep_def log_def)
  ultimately show ?case by (intro exI [of _ None] exI [of _ k] exI [of _ "w'\<lparr>frames := frames w\<rparr>"]) simp
qed

lemma stalled_times_out: "n \<le> stalls d \<Longrightarrow> times_out simulator bytes n d"
proof (induction n arbitrary: d)
  case 0
  show ?case by simp
next
  case (Suc n)
  then have "0 < stalls d" and "n \<le> stalls (d\<lparr>stalls := stalls d - 1\<rparr>)" by simp_all
  with Suc.IH [of "d\<lparr>stalls := stalls d - 1\<rparr>"] show ?case
    by (simp add: simulator_def mock_write_def)
qed

lemma stalled_then_succeeds:
  "broken d = [] \<Longrightarrow> times_out_then_succeeds simulator bytes (stalls d) d"
proof (induction "stalls d" arbitrary: d)
  case 0
  then show ?case by (simp add: simulator_def mock_write_def)
next
  case (Suc n)
  from Suc.hyps(2) have eq: "stalls d = Suc n" by simp
  have "times_out_then_succeeds simulator bytes (stalls (d\<lparr>stalls := n\<rparr>)) (d\<lparr>stalls := n\<rparr>)"
    using Suc.prems by (intro Suc.hyps(1)) simp_all
  then have "times_out_then_succeeds simulator bytes (Suc n) d"
    using eq by (simp add: simulator_def mock_write_def)
  then show ?case by (simp only: eq)
qed

subsection \<open>Prefixes, and one write or query that the port accepts\<close>

lemma digit_char_ascii: "d < 10 \<Longrightarrow> is_ascii [digit_char d]"
proof -
  assume "d < 10"
  then have "d \<in> {0, 1, 2, 3, 4, 5, 6, 7, 8, 9}" by auto
  then show ?thesis by (auto simp: is_ascii_def digit_char_def)
qed

lemma is_ascii_str_nat: "is_ascii (str_nat n)"
proof (induction n rule: str_nat.induct)
  case (1 n)
  show ?case
  proof (cases "n < 10")
    case True
    then show ?thesis by (subst str_nat.simps) (simp add: digit_char_ascii)
  next
    case False
    with "1" show ?thesis
      by (subst str_nat.simps) (simp add: is_ascii_append digit_char_ascii)
  qed
qed

lemma str_nat_nonempty: "str_nat n \<noteq> []"
  by (subst str_nat.simps) simp

lemma is_ascii_str_int: "is_ascii (str_int i)"
  using is_ascii_str_nat [of "nat (- i)"] is_ascii_str_nat [of "nat i"]
  by (simp add: str_int_def is_ascii_def)

lemma str_int_nonempty: "str_int i \<noteq> []"
  by (simp add: str_int_def str_nat_nonempty)

lemma address_prefix_cases:
  assumes "address_prefix c = Inr pre"
  shows "is_ascii pre" and "\<forall>a. address c = PyInt a \<longrightarrow> pre = str_int a" and "pre = [] \<longleftrightarrow> address c = PyNone"
proof -
  have "is_ascii pre \<and> (\<forall>a. address c = PyInt a \<longrightarrow> pre = str_int a) \<and> (pre = [] \<longleftrightarrow> address c = PyNone)"
  proof (cases "address c")
    case Unset
    with assms show ?thesis by (simp add: address_prefix_def)
  next
    case PyNone
    with assms have "pre = []" by (simp add: address_prefix_def)
    with PyNone show ?thesis by (simp add: is_ascii_def)
  next
    case (PyInt a)
    with assms have "pre = str_int a" by (simp add: address_prefix_def)
    with PyInt show ?thesis by (simp add: is_ascii_str_int str_int_nonempty)
  qed
  then show "is_ascii pre" and "\<forall>a. address c = PyInt a \<longrightarrow> pre = str_int a"
    and "pre = [] \<longleftrightarrow> address c = PyNone"
    by blast+
qed

lemma SuperWrite_written:
  assumes "is_ascii v" and "ser_write S (v @ CRLF) (port w) = (Written k, p)"
  shows "SuperWrite S v w = Some (Inr (Some k), log (EvWrite (v @ CRLF) (Written k)) (w\<lparr>port := p\<rparr>))"
  using assms by (subst SuperWrite.simps) (simp add: encode_ascii_line)

lemma written_append: "written (a @ b) = written a @ written b"
  by (induction a rule: written.induct) simp_all

lemma SuperQuery_answered:
  assumes "is_ascii v" and "ser_write S (v @ CRLF) (port w) = (Written k, p)"
    and "ser_readline S (timeout w) p = (Inr bs, q)"
  shows "\<exists>w'. SuperQuery S v False w = Some (Inr (bytes_decode S (strip_crlf bs)), w') \<and>
           trace w' = trace w @ [EvAcquire (nlocks w), EvWrite (v @ CRLF) (Written k), EvRead bs, EvRelease (nlocks w)]"
proof -
  let ?w0 = "log (EvAcquire (nlocks w)) (w\<lparr>nlocks := Suc (nlocks w)\<rparr>)"
  let ?w1 = "log (EvWrite (v @ CRLF) (Written k)) (?w0\<lparr>port := p\<rparr>)"
  have "ser_write S (v @ CRLF) (port ?w0) = (Written k, p)"
    using assms(2) by (simp add: log_def)
  from SuperWrite_written [OF assms(1) this]
  have sw: "SuperWrite S v ?w0 = Some (Inr (Some k), ?w1)" .
  have rd: "Read S ?w1 = Some (Inr (strip_crlf bs), log (EvRead bs) (?w1\<lparr>port := q\<rparr>))"
    using assms(3) by (simp add: Read_def log_def)
  have "SuperQuery S v False w =
      Some (Inr (bytes_decode S (strip_crlf bs)), log (EvRelease (nlocks w)) (log (EvRead bs) (?w1\<lparr>port := q\<rparr>)))"
    by (simp add: SuperQuery.simps Let_def sw rd releasing_def)
  then show ?thesis by (simp add: log_def)
qed

subsection \<open>What a query leaves of the state lock\<close>

text \<open>Nothing below \<open>GetState\<close> touches \<open>__stateLock__\<close>: whenever a write, a read or
  a query returns, with a value or an exception, the lock is as it was. For
  \<open>SuperWrite\<close>, which may retry for ever, this is by induction on its computation.\<close>

lemma SuperWrite_stateLock:
  "SuperWrite S v w = Some y \<Longrightarrow> stateLock (snd y) = stateLock w"
proof (induction S v w arbitrary: y rule: SuperWrite.induct)
  case (1 S v w)
  note body = "1.prems" [unfolded SuperWrite.simps [of S v w]]
  show ?case
  proof (cases "encode_ascii (v @ CRLF)")
    case (Inl e)
    with body show ?thesis by auto
  next
    case (Inr bytes)
    obtain res p where wr: "ser_write S bytes (port w) = (res, p)"
      by (cases "ser_write S bytes (port w)")
    show ?thesis
    proof (cases res)
      case (Written n)
      with body Inr wr show ?thesis by (auto simp: log_def)
    next
      case WriteFailed
      with body Inr wr show ?thesis by (auto simp: log_def)
    next
      case WriteTimeout
      show ?thesis
      proof (cases "frames w = 0")
        case True
        with body Inr wr WriteTimeout show ?thesis by (auto simp: log_def sleep_def)
      next
        case False
        let ?w1 = "sleep 200 (log (EvWrite bytes WriteTimeout) (w\<lparr>port := p, frames := frames w - 1\<rparr>))"
        from body Inr wr WriteTimeout False
        have "returning (frames w) (and_then (SuperWrite S v ?w1) (\<lambda>_ w'. Some (Inr None, w'))) = Some y"
          by simp
        then obtain y1 where rec: "SuperWrite S v ?w1 = Some y1" and same: "stateLock (snd y) = stateLock (snd y1)"
          by (auto simp: returning_def and_then_def split: Option.bind_splits sum.splits)
        from "1.IH" [OF Inr wr [symmetric] WriteTimeout False rec] same show ?thesis
          by (simp add: sleep_def log_def)
      qed
    qed
  qed
qed

lemma Read_stateLock: "Read S w = Some y \<Longrightarrow> stateLock (snd y) = stateLock w"
  by (auto simp: Read_def log_def split: prod.splits sum.splits)

lemma SuperQuery_stateLock:
  assumes "SuperQuery S v False w = Some y"
  shows "stateLock (snd y) = stateLock w"
proof -
  let ?w0 = "log (EvAcquire (nlocks w)) (w\<lparr>nlocks := Suc (nlocks w)\<rparr>)"
  from assms obtain y0 where
    body: "and_then (SuperWrite S v ?w0) (\<lambda>_ w2. and_then (Read S w2) (\<lambda>bs w4. Some (Inr (bytes_decode S bs), w4))) = Some y0"
    and y: "stateLock (snd y) = stateLock (snd y0)"
    by (auto simp: SuperQuery.simps Let_def releasing_def log_def)
  show ?thesis
  proof (cases "SuperWrite S v ?w0")
    case None
    with body show ?thesis by simp
  next
    case (Some y1)
    note sw = SuperWrite_stateLock [OF Some]
    obtain r1 w1 where y1: "y1 = (r1, w1)" by (cases y1)
    show ?thesis
    proof (cases r1)
      case (Inl e)
      with body Some y1 sw y show ?thesis by (auto simp: log_def)
    next
      case (Inr x)
      with body Some y1 have rd: "and_then (Read S w1) (\<lambda>bs w4. Some (Inr (bytes_decode S bs), w4)) = Some y0"
        by simp
      then obtain y2 where r: "Read S w1 = Some y2" and s2: "snd y0 = snd y2"
        by (auto simp: and_then_def split: Option.bind_splits sum.splits)
      from Read_stateLock [OF r] s2 sw y1 y show ?thesis by (simp add: log_def)
    qed
  qed
qed

lemma Query_stateLock:
  assumes "Query S c name False w = Some y"
  shows "stateLock (snd y) = stateLock w"
proof (cases "address_prefix c")
  case (Inl e)
  with assms show ?thesis by (auto simp: Query_def)
next
  case (Inr pre)
  with assms obtain y1 where q: "SuperQuery S ((pre @ name) @ ''?'') False w = Some y1" and s: "snd y = snd y1"
    by (auto simp: Query_def Let_def and_then_def split: Option.bind_splits sum.splits)
  from SuperQuery_stateLock [OF q] s show ?thesis by simp
qed

subsection \<open>C1: the status table, and what GetState returns\<close>

text \<open>What \<open>GetState\<close> makes of a status code, the member that \<open>ControllerState(code)\<close>
  finds or \<open>Unknown\<close> where it raises, is the table of the specification. The 256 pairs
  of hexadecimal digits are computed one by one; no other string has a member, but
  \<open>'Unknown'\<close>, the value of \<open>Unknown\<close> itself.\<close>

lemma hex_digit_outside: "a \<notin> set hex_chars \<Longrightarrow> hex_digit a = None"
  by (simp add: hex_digit_def hex_chars_def)

lemma table_keys_hex:
  "map_of ControllerState_values [a, b] = Some st \<Longrightarrow> a \<in> set hex_chars \<and> b \<in> set hex_chars"
  by (simp add: ControllerState_values_def hex_chars_def split: if_splits)

lemma decoded_all_hex:
  "list_all (\<lambda>a. list_all (\<lambda>b.
      (case ControllerState_of [a, b] of Inl e \<Rightarrow> Unknown | Inr st \<Rightarrow> st) = documented_state [a, b])
      hex_chars) hex_chars"
  by (simp add: hex_chars_def ControllerState_of_def ControllerState_values_def
        documented_state_def hex_digit_def state_of_number_def)

lemma decoded_two:
  "(case ControllerState_of [a, b] of Inl e \<Rightarrow> Unknown | Inr st \<Rightarrow> st) = documented_state [a, b]"
proof (cases "a \<in> set hex_chars \<and> b \<in> set hex_chars")
  case True
  with decoded_all_hex show ?thesis by (simp add: list_all_iff)
next
  case False
  then have "map_of ControllerState_values [a, b] = None"
    using table_keys_hex [of a b] by (cases "map_of ControllerState_values [a, b]") auto
  moreover from False have "documented_state [a, b] = Unknown"
    by (auto simp: documented_state_def hex_digit_outside split: option.splits)
  ultimately show ?thesis by (simp add: ControllerState_of_def)
qed

lemma decoded_documented:
  "(case ControllerState_of s of Inl e \<Rightarrow> Unknown | Inr st \<Rightarrow> st) = documented_state s"
proof (cases s)
  case Nil
  then show ?thesis
    by (simp add: ControllerState_of_def ControllerState_values_def documented_state_def)
next
  case (Cons a r)
  note s1 = this
  show ?thesis
  proof (cases r)
    case Nil
    with s1 show ?thesis
      by (simp add: ControllerState_of_def ControllerState_values_def documented_state_def)
  next
    case (Cons b r')
    note s2 = this
    show ?thesis
    proof (cases r')
      case Nil
      with s1 s2 show ?thesis by (simp add: decoded_two)
    next
      case (Cons c r'')
      with s1 s2 show ?thesis
        by (simp add: ControllerState_of_def ControllerState_values_def documented_state_def)
    qed
  qed
qed

lemma GetState_never_raises: "GetState S c w \<noteq> Some (Inl e, w')"
  by (simp add: GetState_def split: option.splits prod.splits sum.splits)

text \<open>
  A call of \<open>GetState\<close> that finds the state lock free and whose status query comes to an
  end returns, and never raises: when the query raised, whatever the exception, it returns
  \<open>Unknown\<close>; when the query gave a reply, it returns the state that the table of the
  specification gives for the last two characters of the reply, which is \<open>Unknown\<close> for
  every code outside the table. No call of \<open>GetState\<close> raises.
\<close>

lemma GetState_decodes:
  assumes "\<not> stateLock w" and "Query S c ''TS'' False (w\<lparr>stateLock := True\<rparr>) = Some (r, w1)"
  shows "(\<exists>w'. GetState S c w =
            Some (Inr (case r of Inl e \<Rightarrow> Unknown | Inr reply \<Rightarrow> documented_state (last2 reply)), w')) \<and>
         (\<forall>e w'. GetState S c w \<noteq> Some (Inl e, w'))"
proof
  show "\<exists>w'. GetState S c w =
            Some (Inr (case r of Inl e \<Rightarrow> Unknown | Inr reply \<Rightarrow> documented_state (last2 reply)), w')"
  proof (cases r)
    case (Inl e)
    with assms show ?thesis by (simp add: GetState_def)
  next
    case (Inr reply)
    with assms decoded_documented [of "last2 reply"] show ?thesis
      by (cases "ControllerState_of (last2 reply)") (simp_all add: GetState_def)
  qed
  show "\<forall>e w'. GetState S c w \<noteq> Some (Inl e, w')"
    by (simp add: GetState_never_raises)
qed

text \<open>Three runs on the simulated port: the controller in state Disable (3C) answers
  \<open>1TS00003C\<close>; one answers \<open>1TS000000\<close>, a code outside the table; and for a device
  object without an address attribute the query raises \<open>AttributeError\<close>.\<close>

lemma GetState_decodes_examples:
  "\<not> stateLock (world0 (device ''3C'' [])) \<and>
   (\<exists>w1. Query simulator (Controller_init (Some 1)) ''TS'' False ((world0 (device ''3C'' []))\<lparr>stateLock := True\<rparr>)
            = Some (Inr ''00003C'', w1)) \<and>
   (\<exists>w'. GetState simulator (Controller_init (Some 1)) (world0 (device ''3C'' [])) = Some (Inr Disable, w')) \<and>
   (\<exists>w1. Query simulator (Controller_init (Some 1)) ''TS'' False ((world0 (device ''00'' []))\<lparr>stateLock := True\<rparr>)
            = Some (Inr ''000000'', w1)) \<and>
   (\<exists>w'. GetState simulator (Controller_init (Some 1)) (world0 (device ''00'' [])) = Some (Inr Unknown, w')) \<and>
   (\<exists>w1. Query simulator (Controller_init None) ''TS'' False ((world0 (device ''3C'' []))\<lparr>stateLock := True\<rparr>)
            = Some (Inl AttributeError, w1)) \<and>
   (\<exists>w'. GetState simulator (Controller_init None) (world0 (device ''3C'' [])) = Some (Inr Unknown, w'))"
proof -
  have free: "\<not> stateLock (world0 d)" for d :: mock
    by (simp add: world0_def)
  have "\<exists>w1. Query simulator (Controller_init (Some 1)) ''TS'' False ((world0 (device ''3C'' []))\<lparr>stateLock := True\<rparr>)
            = Some (Inr ''00003C'', w1)"
    by (simp add: Query_def SuperQuery.simps SuperWrite.simps sim_defs cong: and_then_weak_cong)
  then obtain w1 where q1: "Query simulator (Controller_init (Some 1)) ''TS'' False ((world0 (device ''3C'' []))\<lparr>stateLock := True\<rparr>)
            = Some (Inr ''00003C'', w1)" ..
  have "\<exists>w2. Query simulator (Controller_init (Some 1)) ''TS'' False ((world0 (device ''00'' []))\<lparr>stateLock := True\<rparr>)
            = Some (Inr ''000000'', w2)"
    by (simp add: Query_def SuperQuery.simps SuperWrite.simps sim_defs cong: and_then_weak_cong)
  then obtain w2 where q2: "Query simulator (Controller_init (Some 1)) ''TS'' False ((world0 (device ''00'' []))\<lparr>stateLock := True\<rparr>)
            = Some (Inr ''000000'', w2)" ..
  have "\<exists>w3. Query simulator (Controller_init None) ''TS'' False ((world0 (device ''3C'' []))\<lparr>stateLock := True\<rparr>)
            = Some (Inl AttributeError, w3)"
    by (simp add: Query_def sim_defs)
  then obtain w3 where q3: "Query simulator (Controller_init None) ''TS'' False ((world0 (device ''3C'' []))\<lparr>stateLock := True\<rparr>)
            = Some (Inl AttributeError, w3)" ..
  from GetState_decodes [OF free q1] GetState_decodes [OF free q2] GetState_decodes [OF free q3] free q1 q2 q3
  show ?thesis
    by (simp add: last2_def documented_state_def hex_digit_def state_of_number_def)
qed

text \<open>
  Claim C1 says that \<open>GetState\<close> returns the documented state for every status code of the
  table, and returns \<open>Unknown\<close> for every code outside it and for every failure of the
  transaction that reads the state. That holds of a call that finds the state lock free,
  and the code leaves the lock held whenever it returns \<open>Unknown\<close>. Here the port fails
  when \<open>1TS?\<close> is written: the first \<open>GetState\<close> returns \<open>Unknown\<close>. The second, on the
  same failing port, never returns, where the claim has \<open>Unknown\<close>; and when the port
  has been repaired and the controller answers \<open>1TS00003C\<close>, a code of the table, the
  second \<open>GetState\<close> never returns either, where the claim has \<open>Disable\<close>.
\<close>

theorem GetState_after_a_failure:
  "map_option fst (GetState simulator (Controller_init (Some 1)) (world0 unreadable)) = Some (Inr Unknown) \<and>
   Option.bind (GetState simulator (Controller_init (Some 1)) (world0 unreadable))
     (\<lambda>(r, w). GetState simulator (Controller_init (Some 1)) w) = None \<and>
   Option.bind (GetState simulator (Controller_init (Some 1)) (world0 unreadable))
     (\<lambda>(r, w). GetState simulator (Controller_init (Some 1)) (w\<lparr>port := device ''3C'' []\<rparr>)) = None \<and>
   map_option fst (GetState simulator (Controller_init (Some 1)) (world0 (device ''3C'' []))) = Some (Inr Disable)"
  by (simp add: GetState_def Query_def SuperQuery.simps SuperWrite.simps unreadable_def sim_defs
      cong: and_then_weak_cong)

subsection \<open>C2: the lock of a transaction\<close>

text \<open>With the one lock of the specification's design, a thread that asks for the lock
  while a transaction is under way waits, and the transactions follow one another.\<close>

lemma transactions_exclude:
  "wire (scheduled [0, 0, 1, 1, 1, 1, 1, 0, 0, 1, 1, 1, 1] spec_two_transactions) =
     [(0, Send (''1TS?'' @ CRLF)), (0, Receive), (1, Send (''2TS?'' @ CRLF)), (1, Receive)]"
  by (simp add: scheduled_def thread_step_def spec_two_transactions_def spec_Transact_steps_def CRLF_def)

text \<open>
  Claim C2 says that every transaction holds one lock shared by the whole link, so that
  no write of one transaction falls between the write and the read of another. In the
  code every call of \<open>SuperQuery\<close> constructs a lock of its own: two calls in a row
  acquire the locks 0 and 1. With two threads, each in \<open>SuperQuery\<close>, no \<open>acquire\<close>
  ever waits: after six steps both locks are held at once, and the schedule ends with
  thread 1's write and read between the write and the read of thread 0.
\<close>

theorem queries_interleave:
  "map_option (\<lambda>(r, w). filter is_lock (trace w))
     (and_then (SuperQuery simulator ''1TS?'' False (world0 (device ''32'' [])))
        (\<lambda>r w. SuperQuery simulator ''1TS?'' False w)) =
     Some [EvAcquire 0, EvRelease 0, EvAcquire 1, EvRelease 1] \<and>
   held (scheduled [0, 0, 0, 1, 1, 1] two_queries) = [1, 0] \<and>
   wire (scheduled [0, 0, 0, 1, 1, 1, 1, 1, 0, 0] two_queries) =
     [(0, Send (''1TS?'' @ CRLF)), (1, Send (''2TS?'' @ CRLF)), (1, Receive), (0, Receive)]"
  by (simp add: scheduled_def thread_step_def two_queries_def SuperQuery_steps_def
      SuperQuery.simps SuperWrite.simps sim_defs cong: and_then_weak_cong)

subsection \<open>C3: a position outside the limits\<close>

text \<open>
  Claim C3, as the code has it. The limits are read from the controller at every
  assignment. When the value is below the minimum that the controller reports, or not
  below it and above the maximum that the controller reports next, \<open>Position_set\<close>
  raises \<open>Exception('Position cannot be reached')\<close>, and the world it leaves is the one
  the limit queries left: after the query \<open>SL?\<close> in the first case, after \<open>SL?\<close> and
  \<open>SR?\<close> in the second. Nothing else is written, no \<open>PA\<close>.
\<close>

theorem Position_set_out_of_range:
  assumes "MinPosition F S c w = Some (Inr lo, w1)"
    and "\<not> float_le F lo v \<or> (MaxPosition F S c w1 = Some (Inr hi, w2) \<and> \<not> float_le F v hi)"
  shows "Position_set F S c v w =
           Some (Inl (PyException ''Position cannot be reached''), if float_le F lo v then w2 else w1)"
proof (cases "float_le F lo v")
  case False
  with assms(1) show ?thesis by (simp add: Position_set_def)
next
  case True
  with assms(2) have "MaxPosition F S c w1 = Some (Inr hi, w2)" and "\<not> float_le F v hi"
    by simp_all
  with assms(1) True show ?thesis by (simp add: Position_set_def)
qed

text \<open>With limits -5 and 5: the assignment of 7 fails after both queries, the assignment
  of -7 after the first.\<close>

lemma limits_read:
  "\<exists>w1 w2. MinPosition whole_numbers simulator (Controller_init (Some 1)) (world0 with_limits) = Some (Inr (- 5), w1) \<and>
     MaxPosition whole_numbers simulator (Controller_init (Some 1)) w1 = Some (Inr 5, w2) \<and>
     written (trace w1) = [''1SL?'' @ CRLF] \<and>
     written (trace w2) = [''1SL?'' @ CRLF, ''1SR?'' @ CRLF]"
  by (simp add: MinPosition_def MaxPosition_def query_float_def whole_numbers_def whole_of_def
      digit_value_def hex_digit_def with_limits_def
      Query_def SuperQuery.simps SuperWrite.simps sim_defs cong: and_then_weak_cong)

theorem Position_set_out_of_range_witness:
  "\<exists>w1 w2. MinPosition whole_numbers simulator (Controller_init (Some 1)) (world0 with_limits) = Some (Inr (- 5), w1) \<and>
     MaxPosition whole_numbers simulator (Controller_init (Some 1)) w1 = Some (Inr 5, w2) \<and>
     float_le whole_numbers (- 5) 7 \<and> \<not> float_le whole_numbers 7 5 \<and>
     Position_set whole_numbers simulator (Controller_init (Some 1)) 7 (world0 with_limits) =
       Some (Inl (PyException ''Position cannot be reached''), w2) \<and>
     written (trace w2) = [''1SL?'' @ CRLF, ''1SR?'' @ CRLF] \<and>
     \<not> float_le whole_numbers (- 5) (- 7) \<and>
     Position_set whole_numbers simulator (Controller_init (Some 1)) (- 7) (world0 with_limits) =
       Some (Inl (PyException ''Position cannot be reached''), w1) \<and>
     written (trace w1) = [''1SL?'' @ CRLF]"
proof -
  from limits_read obtain w1 w2 where
    lo: "MinPosition whole_numbers simulator (Controller_init (Some 1)) (world0 with_limits) = Some (Inr (- 5), w1)" and
    hi: "MaxPosition whole_numbers simulator (Controller_init (Some 1)) w1 = Some (Inr 5, w2)" and
    wr1: "written (trace w1) = [''1SL?'' @ CRLF]" and
    wr2: "written (trace w2) = [''1SL?'' @ CRLF, ''1SR?'' @ CRLF]"
    by blast
  have above: "\<not> float_le whole_numbers (- 5) 7 \<or>
      (MaxPosition whole_numbers simulator (Controller_init (Some 1)) w1 = Some (Inr 5, w2) \<and> \<not> float_le whole_numbers 7 5)"
    using hi by (simp add: whole_numbers_def)
  have below: "\<not> float_le whole_numbers (- 5) (- 7) \<or>
      (MaxPosition whole_numbers simulator (Controller_init (Some 1)) w1 = Some (Inr 5, w2) \<and> \<not> float_le whole_numbers (- 7) 5)"
    by (simp add: whole_numbers_def)
  from Position_set_out_of_range [OF lo above] Position_set_out_of_range [OF lo below] lo hi wr1 wr2
  show ?thesis
    by (auto simp: whole_numbers_def)
qed

text \<open>
  Claim C3 as stated says that a position outside the limits fails with no write to the
  transport at all. With limits -5 and 5 the assignment of 7 fails after the lines
  \<open>1SL?\<close> and \<open>1SR?\<close> have been written.
\<close>

theorem Position_set_queries_the_limits:
  "map_option (\<lambda>(r, w). (r, written (trace w)))
     (Position_set whole_numbers simulator (Controller_init (Some 1)) 7 (world0 with_limits)) =
   Some (Inl (PyException ''Position cannot be reached''), [''1SL?'' @ CRLF, ''1SR?'' @ CRLF])"
  by (simp add: Position_set_def MinPosition_def MaxPosition_def query_float_def whole_numbers_def whole_of_def
      digit_value_def hex_digit_def with_limits_def
      Query_def SuperQuery.simps SuperWrite.simps sim_defs cong: and_then_weak_cong)

subsection \<open>C4: the write retries after every timeout\<close>

text \<open>
  While frames are left, the retry is as the specification says. For every command string that is
  ASCII and every transport that answers the write of its line by a timeout \<open>n\<close> times
  and then by success, with \<open>n\<close> no more than the nested calls that the interpreter
  still allows, \<open>SuperWrite\<close> returns without an exception; what it did is exactly \<open>n\<close>
  times a timed-out write of the line followed by a sleep of 200 ms, and then the write
  that succeeded: \<open>n + 1\<close> attempts, all with the same bytes.
\<close>

lemma SuperWrite_retries:
  assumes "is_ascii v" and "times_out_then_succeeds S (v @ CRLF) n (port w)" and "n \<le> frames w"
  shows "\<exists>r k w'. SuperWrite S v w = Some (Inr r, w') \<and>
           trace w' = trace w @ concat (replicate n [EvWrite (v @ CRLF) WriteTimeout, EvSleep 200])
                        @ [EvWrite (v @ CRLF) (Written k)] \<and>
           write_attempts (trace w') = write_attempts (trace w) + n + 1"
proof -
  from SuperWrite_retry_trace [OF assms] obtain r k w' where
    run: "SuperWrite S v w = Some (Inr r, w')" and
    tr: "trace w' = trace w @ concat (replicate n [EvWrite (v @ CRLF) WriteTimeout, EvSleep 200])
                        @ [EvWrite (v @ CRLF) (Written k)]"
    by blast
  have "write_attempts (trace w') = write_attempts (trace w) + n + 1"
    unfolding tr write_attempts_append write_attempts_retries by (simp add: write_attempts_def)
  with run tr show ?thesis by blast
qed

text \<open>The test of the specification: two timeouts, then success, are three attempts.\<close>

lemma SuperWrite_three_attempts:
  "is_ascii ''1ST'' \<and> times_out_then_succeeds simulator (''1ST'' @ CRLF) 2 (port (world0 (stalled 2))) \<and>
   (\<exists>r k w'. SuperWrite simulator ''1ST'' (world0 (stalled 2)) = Some (Inr r, w') \<and>
      trace w' = [EvWrite (''1ST'' @ CRLF) WriteTimeout, EvSleep 200,
                  EvWrite (''1ST'' @ CRLF) WriteTimeout, EvSleep 200,
                  EvWrite (''1ST'' @ CRLF) (Written k)] \<and>
      write_attempts (trace w') = 3)"
proof -
  have a: "is_ascii ''1ST''" by (simp add: is_ascii_def)
  have t: "times_out_then_succeeds simulator (''1ST'' @ CRLF) 2 (port (world0 (stalled 2)))"
    by (simp add: numeral_2_eq_2 stalled_def sim_defs)
  have r: "2 \<le> frames (world0 (stalled 2))" by (simp add: world0_def)
  from SuperWrite_retries [OF a t r] show ?thesis
    using a t by (simp add: world0_def write_attempts_def numeral_2_eq_2 numeral_3_eq_3)
qed

text \<open>A command with a character outside ASCII is refused by
  \<open>encode(encoding='ascii')\<close> before anything is written.\<close>

lemma SuperWrite_non_ascii:
  "SuperWrite simulator [CHR 0xE9] (world0 (device ''32'' [])) = Some (Inl UnicodeEncodeError, world0 (device ''32'' []))"
  by (simp add: SuperWrite.simps sim_defs)

text \<open>When the port goes on timing out, every retry is one call deeper, and the call for
  which no frame is left raises \<open>RecursionError\<close>: with room for \<open>frames w\<close> nested calls,
  after \<open>frames w + 1\<close> attempts.\<close>

lemma SuperWrite_gives_up_trace:
  assumes "is_ascii v" and "times_out S (v @ CRLF) (Suc (frames w)) (port w)"
  shows "\<exists>w'. SuperWrite S v w = Some (Inl RecursionError, w') \<and>
           trace w' = trace w @ concat (replicate (Suc (frames w)) [EvWrite (v @ CRLF) WriteTimeout, EvSleep 200])"
  using assms(2)
proof (induction "frames w" arbitrary: w)
  case 0
  then show ?case
    by (subst SuperWrite.simps)
       (auto simp: encode_ascii_line [OF assms(1)] log_def sleep_def split: wres.splits prod.splits)
next
  case (Suc m)
  let ?bytes = "v @ CRLF"
  let ?p = "snd (ser_write S ?bytes (port w))"
  let ?w1 = "sleep 200 (log (EvWrite ?bytes WriteTimeout) (w\<lparr>port := ?p, frames := frames w - 1\<rparr>))"
  from Suc.hyps(2) have fr: "frames w = Suc m" by simp
  then have m: "m = frames ?w1" by (simp add: sleep_def log_def)
  from Suc.prems fr have to: "fst (ser_write S ?bytes (port w)) = WriteTimeout"
    and rest: "times_out S ?bytes (Suc (frames ?w1)) (port ?w1)"
    by (simp_all add: sleep_def log_def)
  from Suc.hyps(1) [OF m rest] obtain w' where
    run: "SuperWrite S v ?w1 = Some (Inl RecursionError, w')" and
    tr: "trace w' = trace ?w1 @ concat (replicate (Suc (frames ?w1)) [EvWrite ?bytes WriteTimeout, EvSleep 200])"
    by blast
  have "SuperWrite S v w = Some (Inl RecursionError, w'\<lparr>frames := frames w\<rparr>)"
    using to run fr
    by (subst SuperWrite.simps) (auto simp: encode_ascii_line [OF assms(1)] split: prod.splits)
  moreover have "trace (w'\<lparr>frames := frames w\<rparr>) =
      trace w @ concat (replicate (Suc (frames w)) [EvWrite ?bytes WriteTimeout, EvSleep 200])"
    using tr fr by (simp add: sleep_def log_def)
  ultimately show ?case by blast
qed

text \<open>
  Claim C4 says that for every \<open>n\<close>, on a transport that times out \<open>n\<close> times and then
  succeeds, the write makes \<open>n + 1\<close> attempts, with no ceiling on the retries, and
  surfaces no error. Here the port times out 1000 times and then accepts the write, and
  the call is made with room for 993 nested calls: \<open>SuperWrite\<close> raises
  \<open>RecursionError\<close> after 994 attempts, where the claim has 1001 attempts and no error.
\<close>

theorem SuperWrite_gives_up:
  "times_out_then_succeeds simulator (''1ST'' @ CRLF) 1000 (port (world0 (stalled 1000))) \<and>
   map_option (\<lambda>(r, w). (r, write_attempts (trace w)))
     (SuperWrite simulator ''1ST'' (world0 (stalled 1000))) = Some (Inl RecursionError, 994)"
proof -
  have a: "is_ascii ''1ST''" by (simp add: is_ascii_def)
  have "times_out_then_succeeds simulator (''1ST'' @ CRLF) (stalls (stalled 1000)) (stalled 1000)"
    by (rule stalled_then_succeeds) (simp add: stalled_def device_def)
  then have t: "times_out_then_succeeds simulator (''1ST'' @ CRLF) 1000 (port (world0 (stalled 1000)))"
    by (simp add: stalled_def world0_def)
  have "times_out simulator (''1ST'' @ CRLF) (Suc (frames (world0 (stalled 1000)))) (port (world0 (stalled 1000)))"
    by (rule stalled_times_out) (simp add: world0_def stalled_def)
  from SuperWrite_gives_up_trace [OF a this] obtain w' where
    run: "SuperWrite simulator ''1ST'' (world0 (stalled 1000)) = Some (Inl RecursionError, w')" and
    tr: "trace w' = trace (world0 (stalled 1000)) @
           concat (replicate (Suc (frames (world0 (stalled 1000)))) [EvWrite (''1ST'' @ CRLF) WriteTimeout, EvSleep 200])"
    by blast
  have "write_attempts (trace w') = 994"
    unfolding tr write_attempts_append write_attempts_retries by (simp add: world0_def write_attempts_def)
  with run t show ?thesis by simp
qed


subsection \<open>C5: from Disable to Ready\<close>

text \<open>The run of \<open>SetState(Ready)\<close>, joined, on the simulated controller in state Disable:
  the lines written and the lines read.\<close>

lemma RequestState_run:
  "map_option (\<lambda>(r, w). (r, written (trace w), lines_read (trace w)))
     (SetState simulator (Controller_init (Some 1)) Ready True (world0 (device ''3C'' []))) =
   Some (Inr (),
     [''1TS?'' @ CRLF, ''1TS?'' @ CRLF, ''1TS?'' @ CRLF, ''1TS?'' @ CRLF, ''1MM1'' @ CRLF,
      ''1TS?'' @ CRLF, ''1TS?'' @ CRLF, ''1TS?'' @ CRLF, ''1TS?'' @ CRLF],
     [''1TS00003C'' @ CRLF, ''1TS00003C'' @ CRLF, ''1TS00003C'' @ CRLF, ''1TS00003C'' @ CRLF,
      ''1TS000034'' @ CRLF, ''1TS000034'' @ CRLF, ''1TS000034'' @ CRLF, ''1TS000034'' @ CRLF])"
  by (simp add: SetState_def setState.simps while_Unknown.simps is_transient_def Write_def
      GetState_def Query_def SuperQuery.simps SuperWrite.simps sim_defs cong: and_then_weak_cong)

text \<open>
  Claim C5, as the code has it. Every \<open>self.State\<close> in \<open>__setState__\<close> is a status query
  of its own. Starting from Disable, the request for Ready returns without an exception
  after exactly these writes: four status queries (the loop on \<open>Unknown\<close> and the tests for
  Configuration, NotReferenced and Disable), each answered Disable (3C); \<open>1MM1\<close>, after
  which nothing is read; four status queries (the tests for Jogging, Moving and Homing
  and the final comparison), each answered Ready (34).
\<close>

theorem RequestState_Ready_from_Disable:
  "map_option (\<lambda>(r, w). (r, written (trace w), lines_read (trace w)))
     (SetState simulator (Controller_init (Some 1)) Ready True (world0 (device ''3C'' []))) =
   Some (Inr (),
     replicate 4 (''1TS?'' @ CRLF) @ [''1MM1'' @ CRLF] @ replicate 4 (''1TS?'' @ CRLF),
     replicate 4 (''1TS00003C'' @ CRLF) @ replicate 4 (''1TS000034'' @ CRLF))"
  using RequestState_run by (simp add: numeral_eq_Suc)

text \<open>Claim C5 as stated: one status query, \<open>MM1\<close>, one status query. That is not the
  sequence of writes of the run.\<close>

theorem RequestState_not_three_writes:
  "map_option (\<lambda>(r, w). written (trace w))
     (SetState simulator (Controller_init (Some 1)) Ready True (world0 (device ''3C'' []))) \<noteq>
   Some [''1TS?'' @ CRLF, ''1MM1'' @ CRLF, ''1TS?'' @ CRLF]"
proof
  assume three: "map_option (\<lambda>(r, w). written (trace w))
     (SetState simulator (Controller_init (Some 1)) Ready True (world0 (device ''3C'' []))) =
   Some [''1TS?'' @ CRLF, ''1MM1'' @ CRLF, ''1TS?'' @ CRLF]"
  from RequestState_run obtain r w where
    run: "SetState simulator (Controller_init (Some 1)) Ready True (world0 (device ''3C'' [])) = Some (r, w)"
    and wr: "written (trace w) = [''1TS?'' @ CRLF, ''1TS?'' @ CRLF, ''1TS?'' @ CRLF, ''1TS?'' @ CRLF, ''1MM1'' @ CRLF,
      ''1TS?'' @ CRLF, ''1TS?'' @ CRLF, ''1TS?'' @ CRLF, ''1TS?'' @ CRLF]"
    by (auto simp: map_option_case split: option.splits)
  from three run wr show False by simp
qed

subsection \<open>C6: the address in front of a command\<close>

text \<open>
  Claim C6, as the code has it. For a device whose address attribute gives the prefix
  \<open>pre\<close>, and an ASCII command: when the port accepts the write, \<open>Write(cmd)\<close> writes the
  line \<open>pre + cmd\<close>; when the port accepts the write and then gives a line, \<open>Query(cmd)\<close>
  writes the line \<open>pre + cmd + '?'\<close> and returns the decoded reply without its first
  \<open>len(pre + cmd)\<close> characters. The prefix of an integer address is its decimal string,
  and the prefix is empty exactly when the attribute is \<open>None\<close>: not for the address 0.
\<close>

theorem Write_Query_prefix:
  assumes "address_prefix c = Inr pre" and "is_ascii cmd"
    and "ser_write S (pre @ cmd @ CRLF) (port w) = (Written k, p)"
    and "ser_write S (pre @ cmd @ ''?'' @ CRLF) (port w) = (Written k', q)"
    and "ser_readline S (timeout w) q = (Inr bs, q')"
  shows "(\<exists>w'. Write S c cmd w = Some (Inr (), w') \<and>
            written (trace w') = written (trace w) @ [pre @ cmd @ CRLF]) \<and>
         (\<exists>w'. Query S c cmd False w =
              Some (Inr (drop (length (pre @ cmd)) (bytes_decode S (strip_crlf bs))), w') \<and>
            written (trace w') = written (trace w) @ [pre @ cmd @ ''?'' @ CRLF]) \<and>
         (\<forall>a. address c = PyInt a \<longrightarrow> pre = str_int a) \<and>
         (pre = [] \<longleftrightarrow> address c = PyNone)"
proof -
  note pre = address_prefix_cases [OF assms(1)]
  have a1: "is_ascii (pre @ cmd)"
    using pre(1) assms(2) by (simp add: is_ascii_append)
  have "is_ascii ''?''" by (simp add: is_ascii_def)
  with a1 have a2: "is_ascii ((pre @ cmd) @ ''?'')"
    by (simp only: is_ascii_append)
  have "Write S c cmd w = Some (Inr (), log (EvWrite (pre @ cmd @ CRLF) (Written k)) (w\<lparr>port := p\<rparr>))"
    using SuperWrite_written [OF a1, of S w k p] assms(1,3) by (simp add: Write_def)
  then have W: "\<exists>w'. Write S c cmd w = Some (Inr (), w') \<and>
      written (trace w') = written (trace w) @ [pre @ cmd @ CRLF]"
    by (simp add: log_def written_append)
  from SuperQuery_answered [OF a2, of S w k' q bs q'] assms(4,5)
  obtain w' where q: "SuperQuery S ((pre @ cmd) @ ''?'') False w = Some (Inr (bytes_decode S (strip_crlf bs)), w')"
    and tr: "trace w' = trace w @ [EvAcquire (nlocks w), EvWrite (((pre @ cmd) @ ''?'') @ CRLF) (Written k'), EvRead bs, EvRelease (nlocks w)]"
    by auto
  have Q: "\<exists>w'. Query S c cmd False w =
              Some (Inr (drop (length (pre @ cmd)) (bytes_decode S (strip_crlf bs))), w') \<and>
            written (trace w') = written (trace w) @ [pre @ cmd @ ''?'' @ CRLF]"
    using q tr assms(1) by (simp add: Query_def written_append)
  from W Q pre(2,3) show ?thesis by blast
qed

text \<open>The controller at address 1, asked for its lower limit: \<open>1SL?\<close> is answered
  \<open>1SL-5\<close>, and \<open>Query('SL')\<close> returns \<open>-5\<close>.\<close>

theorem Write_Query_prefix_witness:
  "address_prefix (Controller_init (Some 1)) = Inr ''1'' \<and> is_ascii ''SL'' \<and>
   (\<exists>w'. Write simulator (Controller_init (Some 1)) ''SL'' (world0 with_limits) = Some (Inr (), w') \<and>
      written (trace w') = [''1SL'' @ CRLF]) \<and>
   (\<exists>w'. Query simulator (Controller_init (Some 1)) ''SL'' False (world0 with_limits) = Some (Inr ''-5'', w') \<and>
      written (trace w') = [''1SL?'' @ CRLF])"
proof -
  have h1: "address_prefix (Controller_init (Some 1)) = Inr ''1''"
    by (simp add: sim_defs)
  have h2: "is_ascii ''SL''" by (simp add: is_ascii_def)
  have h3: "ser_write simulator (''1'' @ ''SL'' @ CRLF) (port (world0 with_limits)) = (Written 5, with_limits)"
    by (simp add: with_limits_def sim_defs)
  have h4: "ser_write simulator (''1'' @ ''SL'' @ ''?'' @ CRLF) (port (world0 with_limits)) =
      (Written 6, with_limits\<lparr>outbox := [''1SL-5'' @ CRLF]\<rparr>)"
    by (simp add: with_limits_def sim_defs)
  have h5: "ser_readline simulator (timeout (world0 with_limits)) (with_limits\<lparr>outbox := [''1SL-5'' @ CRLF]\<rparr>) =
      (Inr (''1SL-5'' @ CRLF), with_limits)"
    by (simp add: with_limits_def sim_defs)
  from Write_Query_prefix [OF h1 h2 h3 h4 h5] h1 h2 show ?thesis
    by (simp add: simulator_def strip_crlf_def CRLF_def world0_def)
qed

text \<open>
  Claim C6 as stated gives a device with address 0, or with no address, an empty prefix.
  Address 0 is in \<open>ADDRESS_RANGE\<close> and is written as the prefix \<open>0\<close>: \<open>Write('ST')\<close>
  sends \<open>0ST\<close>. A device constructed without an address in the range has no address
  attribute, and \<open>Write\<close> raises \<open>AttributeError\<close>.
\<close>

theorem address_zero_prefix:
  "address_prefix (Controller_init (Some 0)) = Inr ''0'' \<and>
   map_option (\<lambda>(r, w). (r, written (trace w)))
     (Write simulator (Controller_init (Some 0)) ''ST'' (world0 (device ''32'' []))) = Some (Inr (), [''0ST'' @ CRLF]) \<and>
   map_option fst (Write simulator (Controller_init None) ''ST'' (world0 (device ''32'' []))) = Some (Inl AttributeError)"
  by (simp add: Write_def SuperWrite.simps sim_defs cong: and_then_weak_cong)

subsection \<open>C7: the error check of a transaction\<close>

text \<open>
  Claim C7 says that a checked transaction fails if and only if the code character of
  the error reply is not 0, the comparison being with the code and not with the echoed
  prefix. \<open>raise_error\<close> compares \<open>err[0]\<close>, the first character of the whole reply.
  Here the error channel answers \<open>1TB0 No error\<close>, code 0: the first character is the
  \<open>1\<close> of the address, the check before the write raises, and the command \<open>1TS?\<close> is
  never written.
\<close>

theorem raise_error_reads_the_echo:
  "map_option (\<lambda>(r, w). (r, written (trace w), lines_read (trace w)))
     (SuperQuery simulator ''1TS?'' True (world0 no_error)) =
   Some (Inl (PyException ''1TB0 No error''), [''TB'' @ CRLF], [''1TB0 No error'' @ CRLF])"
  by (simp add: raise_error.simps read_error.simps no_error_def
      SuperQuery.simps SuperWrite.simps sim_defs cong: and_then_weak_cong)

subsection \<open>C8: IsEnabled\<close>

text \<open>No reply makes the getter return \<open>True\<close>: it compares a \<open>str\<close> with the \<open>int\<close> 1.\<close>

lemma IsEnabled_get_False: "IsEnabled_get S c w = Some (Inr b, w') \<Longrightarrow> \<not> b"
  by (auto simp: IsEnabled_get_def and_then_def split: Option.bind_splits sum.splits)

text \<open>
  Claim C8 says that the getter compares the reply with a string, so that some reply
  makes it return true. Here the controller answers \<open>1MM1\<close>, motor on: the query gives
  the string \<open>1\<close> and the getter returns \<open>False\<close>.
\<close>

theorem IsEnabled_get_motor_on:
  "map_option fst (Query simulator (Controller_init (Some 1)) ''MM'' False (world0 motor_on)) = Some (Inr ''1'') \<and>
   map_option fst (IsEnabled_get simulator (Controller_init (Some 1)) (world0 motor_on)) = Some (Inr False)"
  by (simp add: IsEnabled_get_def motor_on_def
      Query_def SuperQuery.simps SuperWrite.simps sim_defs cong: and_then_weak_cong)

subsection \<open>C9: Connect\<close>

text \<open>A joined thread never raises in its caller, so whatever happens in the request for
  Ready, once the home flag is set \<open>Connect\<close> returns \<open>True\<close> and leaves the device
  marked connected.\<close>

lemma joined_never_raises: "joined m \<noteq> Some (Inl e, w)"
  by (auto simp: joined_def split: Option.bind_splits sum.splits)

lemma SetState_never_raises: "SetState S c v True w \<noteq> Some (Inl e, w')"
proof
  assume "SetState S c v True w = Some (Inl e, w')"
  then obtain w1 where "joined (setState S c v (started w)) = Some (Inl e, w1)"
    by (auto simp: SetState_def returning_def)
  with joined_never_raises show False by blast
qed

lemma Connect_after_home_flag:
  assumes "HomeIsHardwareDefined_set S (c\<lparr>IsConnected := True\<rparr>) h w = Some (Inr (), w1)"
    and "SetState S (c\<lparr>IsConnected := True\<rparr>) Ready True w1 = Some (r, w2)"
  shows "Connect S c h True w = Some (Inr (Some True, c\<lparr>IsConnected := True\<rparr>), w2)"
proof (cases r)
  case (Inl e)
  with assms(2) SetState_never_raises [of S "c\<lparr>IsConnected := True\<rparr>" Ready w1 e w2]
  show ?thesis by simp
next
  case (Inr u)
  with assms show ?thesis by (simp add: Connect_def)
qed

text \<open>An exception of the first step, setting the home flag, is caught: the device is
  marked disconnected and \<open>Connect\<close> returns \<open>None\<close>. So it is when the getter of the
  home flag has polled until no frame is left: here the controller never answers \<open>1HT?\<close>
  and the call is made with room for two nested calls.\<close>

lemma Connect_home_flag_raises:
  assumes "HomeIsHardwareDefined_set S (c\<lparr>IsConnected := True\<rparr>) h w = Some (Inl e, w1)"
  shows "Connect S c h wait w = Some (Inr (None, c\<lparr>IsConnected := False\<rparr>), w1)"
  using assms by (simp add: Connect_def)

lemma Connect_home_flag_gives_up:
  "map_option (\<lambda>(r, w). (r, length (filter (\<lambda>ev. ev = EvSleep 100) (trace w))))
     (HomeIsHardwareDefined_get simulator (Controller_init (Some 1)) ((world0 (device ''32'' []))\<lparr>frames := 2\<rparr>))
     = Some (Inl RecursionError, 3) \<and>
   map_option fst (Connect simulator (Controller_init (Some 1)) True True ((world0 (device ''32'' []))\<lparr>frames := 2\<rparr>))
     = Some (Inr (None, (Controller_init (Some 1))\<lparr>IsConnected := False\<rparr>))"
  by (simp add: Connect_def HomeIsHardwareDefined_set_def HomeIsHardwareDefined_get.simps
      Query_def SuperQuery.simps SuperWrite.simps sim_defs cong: and_then_weak_cong)

text \<open>
  Claim C9 says that when any step of \<open>Connect\<close> raises, the device is marked
  disconnected and the failure is reported. The request for Ready runs in a thread: an
  exception there ends the thread and never reaches the handler in \<open>Connect\<close>. Here the
  controller is in Disable and the port fails when \<open>1MM1\<close> is written: the thread dies
  with \<open>SerialException\<close>, the controller is still in Disable (3C), and \<open>Connect\<close>
  returns \<open>True\<close> with \<open>IsConnected\<close> set.
\<close>

theorem Connect_misses_the_thread:
  "map_option (\<lambda>(r, w). (r, filter is_died (trace w), status (port w)))
     (Connect simulator (Controller_init (Some 1)) True True (world0 failing_enable)) =
   Some (Inr (Some True, \<lparr>address = PyInt 1, IsConnected = True\<rparr>), [EvThreadDied SerialException], ''3C'')"
  by (simp add: Connect_def HomeIsHardwareDefined_set_def HomeIsHardwareDefined_get.simps failing_enable_def
      SetState_def setState.simps while_Unknown.simps is_transient_def Write_def
      GetState_def Query_def SuperQuery.simps SuperWrite.simps sim_defs cong: and_then_weak_cong)

subsection \<open>C10: the state lock after GetState\<close>

text \<open>A code can only be \<open>Unknown\<close> through the handler: no string of at most two
  characters is the value \<open>'Unknown'\<close>. So every call of \<open>GetState\<close> that returns
  \<open>Unknown\<close> returns with the state lock held, and every call that finds it held never
  returns.\<close>

lemma ControllerState_of_Unknown: "ControllerState_of s = Inr Unknown \<Longrightarrow> s = ''Unknown''"
  by (simp add: ControllerState_of_def ControllerState_values_def split: if_splits)

lemma last2_short: "length (last2 s) \<le> 2"
  by (simp add: last2_def)

lemma GetState_Unknown_keeps_the_lock:
  assumes "GetState S c w = Some (Inr Unknown, w')"
  shows "stateLock w'"
proof -
  from assms have free: "\<not> stateLock w"
    by (auto simp: GetState_def split: if_splits)
  let ?w0 = "w\<lparr>stateLock := True\<rparr>"
  from assms free obtain r w1 where q: "Query S c ''TS'' False ?w0 = Some (r, w1)"
    by (cases "Query S c ''TS'' False ?w0") (auto simp: GetState_def)
  from Query_stateLock [OF q] have held: "stateLock w1" by simp
  show ?thesis
  proof (cases r)
    case (Inl e)
    with assms free q held show ?thesis by (simp add: GetState_def)
  next
    case (Inr reply)
    show ?thesis
    proof (cases "ControllerState_of (last2 reply)")
      case (Inl e)
      with assms free q held Inr show ?thesis by (simp add: GetState_def)
    next
      case (Inr st)
      with assms free q \<open>r = Inr reply\<close> have "st = Unknown" by (simp add: GetState_def)
      with Inr have "last2 reply = ''Unknown''" by (simp add: ControllerState_of_Unknown)
      with last2_short [of reply] show ?thesis by simp
    qed
  qed
qed

lemma GetState_waits_for_the_lock: "stateLock w \<Longrightarrow> GetState S c w = None"
  by (simp add: GetState_def)

text \<open>
  Claim C10 says that \<open>GetState\<close> has released the state lock whenever it returns. The
  code releases it only on the path that returns a decoded state. Here the controller
  answers \<open>1TS000000\<close>, a code outside the table: \<open>GetState\<close> returns \<open>Unknown\<close> from the
  handler and the lock is still held; the next call of \<open>GetState\<close> waits for it and never
  returns.
\<close>

theorem GetState_keeps_the_lock:
  "map_option (\<lambda>(r, w). (r, stateLock w))
     (GetState simulator (Controller_init (Some 1)) (world0 (device ''00'' []))) = Some (Inr Unknown, True) \<and>
   Option.bind (GetState simulator (Controller_init (Some 1)) (world0 (device ''00'' [])))
     (\<lambda>(r, w). GetState simulator (Controller_init (Some 1)) w) = None"
  by (simp add: GetState_def Query_def SuperQuery.simps SuperWrite.simps sim_defs cong: and_then_weak_cong)

end
